theory Spec2Isabelle
  imports Complex_Main
begin

section \<open>Values shared by the modules\<close>

text \<open>
  Python strings are modelled as \<^typ>\<open>string\<close>, one \<^typ>\<open>char\<close> per character, so the
  model covers text whose characters lie in the 8-bit range; \<open>len\<close>, \<open>in\<close> and \<open>==\<close> then
  agree with \<^const>\<open>length\<close>, the substring test and equality. The Chinese literals of the
  source are written in ASCII:
  \<^item> the values of \<open>LoginStatus\<close>: \<open>login success\<close>, \<open>password error\<close>, \<open>username error\<close>,
    \<open>captcha error\<close>, \<open>captcha required\<close>, \<open>connection error\<close>, \<open>timeout error\<close>,
    \<open>unknown error\<close>, in the order of the enum;
  \<^item> the messages: \<open>login success\<close>, \<open>unknown response\<close>, \<open>contains failure marker: \<close>,
    \<open>HTTP status code: \<close>, \<open>request timed out\<close>, \<open>connection error: \<close>,
    \<open>unknown error: \<close>, \<open>task exception: \<close>;
  \<^item> the name of the profile built in place by \<open>ConfigManager.get_system_config\<close>: \<open>general\<close>;
  \<^item> the display names of the profiles of the examples: \<open>shanying CRM\<close>, \<open>generic login\<close>.
\<close>

text \<open>A value of type \<open>Any\<close> that JSON can carry.\<close>

datatype pyval =
    PNone
  | PBool bool
  | PInt int
  | PFloat rat
  | PStr string
  | PList "pyval list"
  | PDict "(string \<times> pyval) list"

text \<open>The exceptions the modelled code raises.\<close>

datatype py_error =
  AttributeError | KeyError | TypeError | ValueError | IndexError | JSONDecodeError

text \<open>\<open>class LoginStatus(Enum)\<close> of \<open>async_verifier.py\<close> and \<open>unified_verifier.py\<close>.\<close>

datatype LoginStatus =
    SUCCESS
  | PASSWORD_ERROR
  | USERNAME_ERROR
  | CAPTCHA_ERROR
  | CAPTCHA_REQUIRED
  | CONNECTION_ERROR
  | TIMEOUT_ERROR
  | UNKNOWN_ERROR

fun LoginStatus_value :: "LoginStatus \<Rightarrow> string" where
  "LoginStatus_value SUCCESS = ''login success''"
| "LoginStatus_value PASSWORD_ERROR = ''password error''"
| "LoginStatus_value USERNAME_ERROR = ''username error''"
| "LoginStatus_value CAPTCHA_ERROR = ''captcha error''"
| "LoginStatus_value CAPTCHA_REQUIRED = ''captcha required''"
| "LoginStatus_value CONNECTION_ERROR = ''connection error''"
| "LoginStatus_value TIMEOUT_ERROR = ''timeout error''"
| "LoginStatus_value UNKNOWN_ERROR = ''unknown error''"

text \<open>
  \<open>class LoginResult\<close>: the dataclass declares exactly these fields (the field \<open>url\<close> is
  named \<open>result_url\<close> here). It declares no field \<open>target\<close>.
\<close>

record LoginResult =
  status :: LoginStatus
  success :: bool
  message :: pyval
  response_time :: rat
  result_url :: string
  final_url :: string
  page_changed :: bool
  details :: "(string \<times> pyval) list option"
  timestamp :: string

text \<open>\<open>class TargetInfo\<close> of \<open>async_verifier.py\<close>, the class \<open>progress_manager.py\<close> imports.\<close>

record TargetInfo =
  url :: string
  username :: string
  password :: string
  extra :: "(string \<times> string) list option"
  index :: int

section \<open>Session store (\<open>progress_manager.py\<close>)\<close>

record ScanSession =
  session_id :: string
  created_at :: string
  updated_at :: string
  targets :: "TargetInfo list"
  completed_indices :: "int list"
  results :: "LoginResult list"
  config :: "(string \<times> pyval) list"
  stats :: "(string \<times> int) list"

text \<open>
  \<open>get_remaining_targets\<close>:
  \<^verbatim>\<open>[t for i, t in enumerate(self.targets) if i not in self.completed_indices]\<close>
\<close>

definition get_remaining_targets :: "ScanSession \<Rightarrow> TargetInfo list" where
  "get_remaining_targets s =
     map snd (filter (\<lambda>(i, t). int i \<notin> set (completed_indices s)) (enumerate 0 (targets s)))"

text \<open>
  The test of the replacement loop of \<open>add_result\<close>:
  \<^verbatim>\<open>hasattr(r, 'target') and hasattr(r.target, 'index') and r.target.index == index\<close>
  A \<open>LoginResult\<close> has no attribute \<open>target\<close>, and no code of the repository attaches one,
  so \<open>hasattr(r, 'target')\<close> is false and the conjunction stops there: the lookup of the
  attribute gives nothing.
\<close>

definition getattr_target :: "LoginResult \<Rightarrow> TargetInfo option" where
  "getattr_target r = None"

definition result_is_for :: "LoginResult \<Rightarrow> int \<Rightarrow> bool" where
  "result_is_for r idx = (case getattr_target r of None \<Rightarrow> False | Some t \<Rightarrow> index t = idx)"

text \<open>
  The \<open>for ... else\<close> loop of \<open>add_result\<close>: the first result that passes the test is
  replaced and the loop breaks; when no result passes, the new one is appended.
\<close>

fun replace_or_append :: "int \<Rightarrow> LoginResult \<Rightarrow> LoginResult list \<Rightarrow> LoginResult list" where
  "replace_or_append idx new [] = [new]"
| "replace_or_append idx new (r # rs) =
     (if result_is_for r idx then new # rs else r # replace_or_append idx new rs)"

definition is_error_status :: "LoginStatus \<Rightarrow> bool" where
  "is_error_status st = (st \<in> set [CONNECTION_ERROR, TIMEOUT_ERROR, UNKNOWN_ERROR])"

text \<open>\<open>_update_stats\<close>: the dictionary is rebuilt from the targets, indices and results.\<close>

definition update_stats :: "ScanSession \<Rightarrow> ScanSession" where
  "update_stats s = s\<lparr>stats :=
     [(''total'', int (length (targets s))),
      (''completed'', int (length (completed_indices s))),
      (''remaining'', int (length (targets s)) - int (length (completed_indices s))),
      (''success'', int (length (filter (\<lambda>r. success r) (results s)))),
      (''failed'', int (length (filter (\<lambda>r. \<not> success r \<and> status r \<noteq> UNKNOWN_ERROR) (results s)))),
      (''errors'', int (length (filter (\<lambda>r. is_error_status (status r)) (results s))))]\<rparr>"

text \<open>
  \<open>add_result(index, result)\<close>; \<open>now\<close> is the text \<open>datetime.now().strftime(...)\<close> gives at
  the call.
\<close>

definition add_result :: "string \<Rightarrow> int \<Rightarrow> LoginResult \<Rightarrow> ScanSession \<Rightarrow> ScanSession" where
  "add_result now idx r s =
     update_stats
       (s\<lparr>completed_indices :=
            (if idx \<in> set (completed_indices s) then completed_indices s
             else completed_indices s @ [idx]),
          results := replace_or_append idx r (results s),
          updated_at := now\<rparr>)"

text \<open>Reading a key of the \<open>stats\<close> dictionary.\<close>

definition stat :: "ScanSession \<Rightarrow> string \<Rightarrow> int option" where
  "stat s k = map_of (stats s) k"

section \<open>Proxy rotation pool (\<open>proxy_support.py\<close>)\<close>

datatype ProxyType = HTTP | HTTPS | SOCKS5

text \<open>\<open>class ProxyInfo\<close>; the fields \<open>username\<close> and \<open>password\<close> carry the prefix \<open>proxy_\<close>.\<close>

record ProxyInfo =
  host :: string
  port :: int
  proxy_username :: "string option"
  proxy_password :: "string option"
  proxy_type :: ProxyType

text \<open>
  \<open>class ProxyPool\<close>: the four dataclass fields, and the two attributes \<open>__post_init__\<close>
  adds. \<open>failures\<close> is a dictionary from list positions to counts.
\<close>

record ProxyPool =
  proxies :: "ProxyInfo list"
  enabled :: bool
  max_failures :: int
  rotation_strategy :: string
  failures :: "nat \<rightharpoonup> int"
  current_index :: int

text \<open>\<open>self.failures.get(idx, 0)\<close>\<close>

definition failures_get :: "ProxyPool \<Rightarrow> nat \<Rightarrow> int" where
  "failures_get pool idx = (case failures pool idx of None \<Rightarrow> 0 | Some n \<Rightarrow> n)"

text \<open>\<open>reset_failures\<close>: \<^verbatim>\<open>{idx: 0 for idx in range(len(self.proxies))}\<close>\<close>

definition reset_failures :: "ProxyPool \<Rightarrow> ProxyPool" where
  "reset_failures pool =
     pool\<lparr>failures := (\<lambda>idx. if idx < length (proxies pool) then Some 0 else None)\<rparr>"

text \<open>
  \<open>min(seq, key=f)\<close> on a non-empty sequence: the first element whose key is least. The
  candidate changes only when a strictly smaller key is met.
\<close>

fun min_by_key :: "('a \<Rightarrow> int) \<Rightarrow> 'a \<Rightarrow> 'a list \<Rightarrow> 'a" where
  "min_by_key f best [] = best"
| "min_by_key f best (x # xs) = min_by_key f (if f x < f best then x else best) xs"

text \<open>
  \<open>get_proxy\<close>. The pool is mutated (the reset, the cursor), so the new pool is returned with
  the proxy. \<open>k\<close> is the draw of \<open>random.choice\<close>: the position it picks is \<open>k mod len\<close>, which
  ranges over every position as \<open>k\<close> varies.
\<close>

definition get_proxy :: "nat \<Rightarrow> ProxyPool \<Rightarrow> ProxyInfo option \<times> ProxyPool" where
  "get_proxy k pool =
     (if \<not> enabled pool \<or> proxies pool = [] then (None, pool)
      else
        let available0 =
              filter (\<lambda>(idx, proxy). failures_get pool idx < max_failures pool)
                (enumerate 0 (proxies pool));
            pool1 = (if available0 = [] then reset_failures pool else pool);
            available = (if available0 = [] then enumerate 0 (proxies pool) else available0)
        in
          if available = [] then (None, pool1)
          else if rotation_strategy pool1 = ''random'' then
            (Some (snd (available ! (k mod length available))), pool1)
          else if rotation_strategy pool1 = ''least_used'' then
            (Some (snd (min_by_key (\<lambda>x. failures_get pool1 (fst x)) (hd available) (tl available))),
             pool1)
          else
            (Some (snd (available ! nat (current_index pool1 mod int (length available)))),
             pool1\<lparr>current_index := current_index pool1 + 1\<rparr>))"

text \<open>\<open>add_proxy\<close>, \<open>mark_failure\<close> and \<open>mark_success\<close>.\<close>

definition add_proxy :: "ProxyInfo \<Rightarrow> ProxyPool \<Rightarrow> ProxyPool" where
  "add_proxy proxy pool =
     pool\<lparr>proxies := proxies pool @ [proxy],
          failures := (failures pool)(length (proxies pool) \<mapsto> 0)\<rparr>"

fun find_proxy_index :: "ProxyInfo \<Rightarrow> nat \<Rightarrow> ProxyInfo list \<Rightarrow> nat option" where
  "find_proxy_index proxy idx [] = None"
| "find_proxy_index proxy idx (p # ps) =
     (if host p = host proxy \<and> port p = port proxy then Some idx
      else find_proxy_index proxy (Suc idx) ps)"

definition mark_failure :: "ProxyInfo \<Rightarrow> ProxyPool \<Rightarrow> ProxyPool" where
  "mark_failure proxy pool =
     (case find_proxy_index proxy 0 (proxies pool) of
        None \<Rightarrow> pool
      | Some idx \<Rightarrow> pool\<lparr>failures := (failures pool)(idx \<mapsto> failures_get pool idx + 1)\<rparr>)"

definition mark_success :: "ProxyInfo \<Rightarrow> ProxyPool \<Rightarrow> ProxyPool" where
  "mark_success proxy pool =
     (case find_proxy_index proxy 0 (proxies pool) of
        None \<Rightarrow> pool
      | Some idx \<Rightarrow> pool\<lparr>failures := (failures pool)(idx \<mapsto> 0)\<rparr>)"

section \<open>Credential encoder (\<open>UnifiedVerifier._encrypt_password\<close>)\<close>







definition lower_char :: "char \<Rightarrow> char" where
  "lower_char c =
     (let n = (of_char c :: nat) in
      if (65 \<le> n \<and> n \<le> 90) \<or> (192 \<le> n \<and> n \<le> 222 \<and> n \<noteq> 215) then char_of (n + 32)
      else c)"


definition lower :: "string \<Rightarrow> string" where
  "lower s = map lower_char s"






section \<open>Profile registry (\<open>config_manager.py\<close>, \<open>simple_config.py\<close>)\<close>

text \<open>\<open>p in s\<close> on strings: \<open>p\<close> occurs in \<open>s\<close> as a contiguous run.\<close>

fun starts_with :: "string \<Rightarrow> string \<Rightarrow> bool" where
  "starts_with [] s = True"
| "starts_with (p # ps) [] = False"
| "starts_with (p # ps) (c # cs) = (p = c \<and> starts_with ps cs)"

fun str_in :: "string \<Rightarrow> string \<Rightarrow> bool" where
  "str_in p [] = (p = [])"
| "str_in p (c # cs) = (starts_with p (c # cs) \<or> str_in p cs)"

text \<open>
  A detection pattern is a dictionary read with \<open>get('type')\<close> and \<open>get('value')\<close>: a key
  that is absent reads as \<open>None\<close>.
\<close>

record pattern =
  p_type :: "string option"
  p_value :: "string option"

text \<open>
  The value of an indicator: the profiles use integers and strings; \<open>INone\<close> is what
  \<open>get('value')\<close> gives when the key is absent.
\<close>

datatype ind_val = INone | IInt int | IStr string

record indicator =
  ind_type :: "string option"
  ind_value :: ind_val

text \<open>
  \<open>class SystemConfig\<close> and \<open>class SimpleSystemConfig\<close>: the same eleven fields (the field
  \<open>method\<close> is named \<open>http_method\<close> here).
\<close>

record SystemConfig =
  name :: string
  patterns :: "pattern list"
  login_endpoint :: string
  http_method :: string
  content_type :: string
  username_field :: string
  password_field :: string
  password_encryption :: "string option"
  headers :: "(string \<times> string) list"
  success_indicators :: "indicator list"
  failure_indicators :: "indicator list"

text \<open>
  The inner loop of \<open>ConfigManager.get_system_config\<close>: \<open>match_count\<close> grows by one for each
  pattern of type \<open>url_contains\<close> whose lower-cased value (\<open>''\<close> when absent) occurs in the
  lower-cased URL. No other pattern type has a branch.
\<close>

fun count_matches :: "string \<Rightarrow> nat \<Rightarrow> pattern list \<Rightarrow> nat" where
  "count_matches url_lower match_count [] = match_count"
| "count_matches url_lower match_count (p # ps) =
     (let pv = lower (case p_value p of None \<Rightarrow> [] | Some v \<Rightarrow> v) in
      if p_type p = Some ''url_contains'' then
        (if str_in pv url_lower then count_matches url_lower (match_count + 1) ps
         else count_matches url_lower match_count ps)
      else count_matches url_lower match_count ps)"

text \<open>
  The outer loop, over the items of the \<open>systems\<close> dictionary in insertion order:
  \<^verbatim>\<open>if patterns and match_count >= len(patterns) / 2: return sys_config\<close>
  The division is the true division of Python.
\<close>

fun find_system :: "string \<Rightarrow> (string \<times> SystemConfig) list \<Rightarrow> SystemConfig option" where
  "find_system url_lower [] = None"
| "find_system url_lower ((sys_id, sys_config) # rest) =
     (if sys_id = ''generic'' then find_system url_lower rest
      else
        let match_count = count_matches url_lower 0 (patterns sys_config) in
        if patterns sys_config \<noteq> []
           \<and> (of_nat match_count :: rat) \<ge> of_nat (length (patterns sys_config)) / 2
        then Some sys_config
        else find_system url_lower rest)"

text \<open>The profile built in place when no \<open>generic\<close> is registered; its name is \<open>general\<close> here.\<close>

definition builtin_generic :: SystemConfig where
  "builtin_generic =
     \<lparr>name = ''general'', patterns = [], login_endpoint = ''/login'', http_method = ''POST'',
      content_type = ''application/json'', username_field = ''username'',
      password_field = ''password'', password_encryption = Some ''none'', headers = [],
      success_indicators = [], failure_indicators = []\<rparr>"

definition get_system_config :: "(string \<times> SystemConfig) list \<Rightarrow> string \<Rightarrow> SystemConfig" where
  "get_system_config systems u =
     (case find_system (lower u) systems of
        Some sys_config \<Rightarrow> sys_config
      | None \<Rightarrow>
          (case map_of systems ''generic'' of Some g \<Rightarrow> g | None \<Rightarrow> builtin_generic))"

text \<open>
  \<open>SimpleConfigManager.get_system_config\<close>: the first profile, in insertion order and
  \<open>generic\<close> included, with a \<open>url_contains\<close> pattern whose value occurs in the URL as it is
  written. \<open>None in url\<close> raises \<open>TypeError\<close>. The fallback is \<open>generic\<close>, then \<open>httpbin\<close>, then
  \<open>None\<close>.
\<close>

fun simple_any_match :: "string \<Rightarrow> pattern list \<Rightarrow> py_error + bool" where
  "simple_any_match u [] = Inr False"
| "simple_any_match u (p # ps) =
     (if p_type p = Some ''url_contains'' then
        (case p_value p of
           None \<Rightarrow> Inl TypeError
         | Some v \<Rightarrow> if str_in v u then Inr True else simple_any_match u ps)
      else simple_any_match u ps)"

fun simple_find_system ::
  "string \<Rightarrow> (string \<times> SystemConfig) list \<Rightarrow> py_error + SystemConfig option" where
  "simple_find_system u [] = Inr None"
| "simple_find_system u ((sys_id, sys_config) # rest) =
     (case simple_any_match u (patterns sys_config) of
        Inl e \<Rightarrow> Inl e
      | Inr True \<Rightarrow> Inr (Some sys_config)
      | Inr False \<Rightarrow> simple_find_system u rest)"

definition simple_get_system_config ::
  "(string \<times> SystemConfig) list \<Rightarrow> string \<Rightarrow> py_error + SystemConfig option" where
  "simple_get_system_config systems u =
     (case simple_find_system u systems of
        Inl e \<Rightarrow> Inl e
      | Inr (Some sys_config) \<Rightarrow> Inr (Some sys_config)
      | Inr None \<Rightarrow>
          (case map_of systems ''generic'' of
             Some g \<Rightarrow> Inr (Some g)
           | None \<Rightarrow> Inr (map_of systems ''httpbin'')))"

text \<open>
  The resolution as the specification words it (section 4.1), to compare the code with:
  a pattern matches when its lower-cased value occurs in the lower-cased URL, or, for a
  \<open>path_contains\<close> pattern, in the lower-cased path component of the URL (what follows
  the host, up to the query or the fragment); a profile other than \<open>generic\<close> is selected
  when it has a pattern and at least half of its patterns, rounded up, match; the first
  selected profile in registration order is the answer, \<open>generic\<close> when there is none.
\<close>

fun after_scheme :: "string \<Rightarrow> string" where
  "after_scheme [] = []"
| "after_scheme (c # cs) =
     (if starts_with ''://'' (c # cs) then drop 3 (c # cs) else after_scheme cs)"

definition url_path :: "string \<Rightarrow> string" where
  "url_path u =
     takeWhile (\<lambda>c. c \<noteq> CHR ''?'' \<and> c \<noteq> CHR ''#'')
       (dropWhile (\<lambda>c. c \<noteq> CHR ''/'') (after_scheme u))"

definition spec_pattern_matches :: "string \<Rightarrow> pattern \<Rightarrow> bool" where
  "spec_pattern_matches u p =
     (case p_value p of
        None \<Rightarrow> False
      | Some v \<Rightarrow>
          if p_type p = Some ''url_contains'' then str_in (lower v) (lower u)
          else if p_type p = Some ''path_contains'' then str_in (lower v) (lower (url_path u))
          else False)"

definition spec_selected :: "string \<Rightarrow> string \<times> SystemConfig \<Rightarrow> bool" where
  "spec_selected u entry =
     (fst entry \<noteq> ''generic'' \<and> patterns (snd entry) \<noteq> []
      \<and> length (filter (spec_pattern_matches u) (patterns (snd entry)))
           \<ge> (length (patterns (snd entry)) + 1) div 2)"

definition resolve_spec :: "(string \<times> SystemConfig) list \<Rightarrow> string \<Rightarrow> SystemConfig option" where
  "resolve_spec systems u =
     (case find (spec_selected u) systems of
        Some entry \<Rightarrow> Some (snd entry)
      | None \<Rightarrow> map_of systems ''generic'')"

section \<open>Response heuristic (\<open>UnifiedVerifier._check_response\<close>)\<close>

text \<open>\<open>str(n)\<close> for an integer, and the text an f-string puts for an indicator value.\<close>

fun str_nat :: "nat \<Rightarrow> string" where
  "str_nat n =
     (if n < 10 then [''0123456789'' ! n]
      else str_nat (n div 10) @ [''0123456789'' ! (n mod 10)])"

definition str_int :: "int \<Rightarrow> string" where
  "str_int i = (if i < 0 then CHR ''-'' # str_nat (nat (- i)) else str_nat (nat i))"

fun py_str :: "ind_val \<Rightarrow> string" where
  "py_str INone = ''None''"
| "py_str (IInt i) = str_int i"
| "py_str (IStr s) = s"

text \<open>
  \<open>ind_value in content\<close> raises \<open>TypeError\<close> unless the value is a string;
  \<open>status_code == ind_value\<close> is false for a value that is no integer;
  \<open>len(content) > ind_value\<close> raises \<open>TypeError\<close> unless the value is a number.
\<close>

fun val_in :: "ind_val \<Rightarrow> string \<Rightarrow> py_error + bool" where
  "val_in (IStr s) content = Inr (str_in s content)"
| "val_in v content = Inl TypeError"

fun val_eq_int :: "int \<Rightarrow> ind_val \<Rightarrow> bool" where
  "val_eq_int n (IInt i) = (n = i)"
| "val_eq_int n v = False"

fun len_gt :: "string \<Rightarrow> ind_val \<Rightarrow> py_error + bool" where
  "len_gt content (IInt i) = Inr (int (length content) > i)"
| "len_gt content v = Inl TypeError"

text \<open>
  The message of a \<open>body_contains\<close> failure. \<open>json.loads\<close> is library code, a parameter:
  \<open>None\<close> when it raises (the bare \<open>except\<close> swallows it), the parsed value otherwise.
\<close>

definition body_failure_message :: "(string \<Rightarrow> pyval option) \<Rightarrow> string \<Rightarrow> ind_val \<Rightarrow> pyval" where
  "body_failure_message json_loads content v =
     (case json_loads content of
        Some (PDict kv) \<Rightarrow>
          (case map_of kv ''Message'' of
             Some m \<Rightarrow> m
           | None \<Rightarrow> PStr (''contains failure marker: '' @ py_str v))
      | _ \<Rightarrow> PStr (''contains failure marker: '' @ py_str v))"

text \<open>
  The first loop: \<open>Inr (Some (False, message))\<close> is the \<open>return\<close> inside the loop,
  \<open>Inr None\<close> is the loop running to its end.
\<close>

fun check_failure ::
  "(string \<Rightarrow> pyval option) \<Rightarrow> int \<Rightarrow> string \<Rightarrow> indicator list
     \<Rightarrow> py_error + (bool \<times> pyval) option" where
  "check_failure json_loads status_code content [] = Inr None"
| "check_failure json_loads status_code content (ind # inds) =
     (if ind_type ind = Some ''body_contains'' then
        (case val_in (ind_value ind) content of
           Inl e \<Rightarrow> Inl e
         | Inr True \<Rightarrow> Inr (Some (False, body_failure_message json_loads content (ind_value ind)))
         | Inr False \<Rightarrow> check_failure json_loads status_code content inds)
      else if ind_type ind = Some ''status_code'' then
        (if val_eq_int status_code (ind_value ind)
         then Inr (Some (False, PStr (''HTTP status code: '' @ py_str (ind_value ind))))
         else check_failure json_loads status_code content inds)
      else check_failure json_loads status_code content inds)"

text \<open>The second loop, with its counter.\<close>

fun count_success :: "int \<Rightarrow> string \<Rightarrow> nat \<Rightarrow> indicator list \<Rightarrow> py_error + nat" where
  "count_success status_code content success_count [] = Inr success_count"
| "count_success status_code content success_count (ind # inds) =
     (if ind_type ind = Some ''status_code'' then
        count_success status_code content
          (if val_eq_int status_code (ind_value ind) then success_count + 1 else success_count) inds
      else if ind_type ind = Some ''body_length_gt'' then
        (case len_gt content (ind_value ind) of
           Inl e \<Rightarrow> Inl e
         | Inr b \<Rightarrow>
             count_success status_code content (if b then success_count + 1 else success_count) inds)
      else if ind_type ind = Some ''body_contains'' then
        (case val_in (ind_value ind) content of
           Inl e \<Rightarrow> Inl e
         | Inr b \<Rightarrow>
             count_success status_code content (if b then success_count + 1 else success_count) inds)
      else if ind_type ind = Some ''body_not_contains'' then
        (case val_in (ind_value ind) content of
           Inl e \<Rightarrow> Inl e
         | Inr b \<Rightarrow>
             count_success status_code content (if b then success_count else success_count + 1) inds)
      else count_success status_code content success_count inds)"

definition check_response ::
  "(string \<Rightarrow> pyval option) \<Rightarrow> int \<Rightarrow> string \<Rightarrow> SystemConfig \<Rightarrow> py_error + bool \<times> pyval" where
  "check_response json_loads status_code content sys_config =
     (case check_failure json_loads status_code content (failure_indicators sys_config) of
        Inl e \<Rightarrow> Inl e
      | Inr (Some answer) \<Rightarrow> Inr answer
      | Inr None \<Rightarrow>
          (case count_success status_code content 0 (success_indicators sys_config) of
             Inl e \<Rightarrow> Inl e
           | Inr success_count \<Rightarrow>
               if success_count \<ge> max 1 (length (success_indicators sys_config) div 2 + 1)
               then Inr (True, PStr ''login success'')
               else Inr (False, PStr ''unknown response'')))"

text \<open>
  The predicate of an indicator as the specification gives it (section 3), by its kind:
  status equality, body length above the value, text present, text absent. It is the
  same for the indicators of both lists.
\<close>

definition indicator_holds :: "int \<Rightarrow> string \<Rightarrow> indicator \<Rightarrow> bool" where
  "indicator_holds status_code content ind =
     (if ind_type ind = Some ''status_code'' then ind_value ind = IInt status_code
      else if ind_type ind = Some ''body_length_gt'' then
        (case ind_value ind of IInt n \<Rightarrow> int (length content) > n | _ \<Rightarrow> False)
      else if ind_type ind = Some ''body_contains'' then
        (case ind_value ind of IStr s \<Rightarrow> str_in s content | _ \<Rightarrow> False)
      else if ind_type ind = Some ''body_not_contains'' then
        (case ind_value ind of IStr s \<Rightarrow> \<not> str_in s content | _ \<Rightarrow> False)
      else False)"

text \<open>
  The evaluation as the specification words it (section 4.3), to compare the code with:
  a failure when some failure indicator holds, otherwise a success exactly when the
  success indicators that hold number at least \<open>max(1, len div 2 + 1)\<close>.
\<close>

definition evaluate_spec :: "int \<Rightarrow> string \<Rightarrow> SystemConfig \<Rightarrow> bool" where
  "evaluate_spec status_code content sys_config =
     (case find (indicator_holds status_code content) (failure_indicators sys_config) of
        Some ind \<Rightarrow> False
      | None \<Rightarrow>
          length (filter (indicator_holds status_code content) (success_indicators sys_config))
            \<ge> max 1 (length (success_indicators sys_config) div 2 + 1))"

text \<open>
  The kinds the first loop of \<open>_check_response\<close> has a branch for: a failure indicator of
  another kind is passed over.
\<close>

definition scanned_as_failure :: "indicator \<Rightarrow> bool" where
  "scanned_as_failure ind =
     (ind_type ind = Some ''body_contains'' \<or> ind_type ind = Some ''status_code'')"

text \<open>
  An indicator is well typed when a text test carries a text and a length test a number.
\<close>

definition well_typed :: "indicator \<Rightarrow> bool" where
  "well_typed ind =
     (if ind_type ind = Some ''body_contains'' \<or> ind_type ind = Some ''body_not_contains'' then
        (case ind_value ind of IStr s \<Rightarrow> True | _ \<Rightarrow> False)
      else if ind_type ind = Some ''body_length_gt'' then
        (case ind_value ind of IInt n \<Rightarrow> True | _ \<Rightarrow> False)
      else True)"

section \<open>Probe executor (\<open>unified_verifier.py\<close>)\<close>

text \<open>
  What the body of the \<open>try\<close> block of \<open>_verify_sync\<close> and \<open>_verify_async\<close> meets once the
  profile is resolved: a response (status code, decoded text, final URL), a timeout
  (\<open>requests.exceptions.Timeout\<close>, \<open>asyncio.TimeoutError\<close>), a transport error
  (\<open>RequestException\<close>, \<open>aiohttp.ClientError\<close>) with its text, or any other exception with
  its text (raised while the URL is parsed, the request built or sent, the body decoded).
\<close>

datatype send_outcome =
    Responded int string string
  | TimedOut
  | TransportError string
  | Unexpected string

datatype config_manager =
    ConfigManager "(string \<times> SystemConfig) list"
  | SimpleConfigManager "(string \<times> SystemConfig) list"

fun cm_get_system_config :: "config_manager \<Rightarrow> string \<Rightarrow> py_error + SystemConfig option" where
  "cm_get_system_config (ConfigManager systems) u = Inr (Some (get_system_config systems u))"
| "cm_get_system_config (SimpleConfigManager systems) u = simple_get_system_config systems u"

text \<open>
  The surroundings of a probe: the configuration manager, \<open>json.loads\<close>, the network, the
  clock (\<open>elapsed\<close> is \<open>time.time() - start_time\<close>, \<open>now_text\<close> the default timestamp), the
  text \<open>str(e)\<close> of an exception, and the progress and log callbacks. \<open>callbacks k t r\<close> is
  what the two callbacks do at the \<open>k\<close>-th completed probe, of target \<open>t\<close> with result \<open>r\<close>:
  \<open>None\<close> when they return or are not installed, the text of the exception when one raises.
\<close>

record probe_env =
  manager :: config_manager
  json_loads :: "string \<Rightarrow> pyval option"
  send :: "TargetInfo \<Rightarrow> send_outcome"
  elapsed :: "TargetInfo \<Rightarrow> rat"
  now_text :: string
  exc_text :: "py_error \<Rightarrow> string"
  callbacks :: "nat \<Rightarrow> TargetInfo \<Rightarrow> LoginResult \<Rightarrow> string option"

text \<open>The results built by the three \<open>except\<close> clauses.\<close>

definition timeout_result :: "probe_env \<Rightarrow> TargetInfo \<Rightarrow> LoginResult" where
  "timeout_result env t =
     \<lparr>status = TIMEOUT_ERROR, success = False, message = PStr ''request timed out'',
      response_time = elapsed env t, result_url = url t, final_url = url t,
      page_changed = False, details = None, timestamp = now_text env\<rparr>"

definition connection_error_result :: "probe_env \<Rightarrow> TargetInfo \<Rightarrow> string \<Rightarrow> LoginResult" where
  "connection_error_result env t e =
     \<lparr>status = CONNECTION_ERROR, success = False,
      message = PStr (''connection error: '' @ take 50 e),
      response_time = elapsed env t, result_url = url t, final_url = url t,
      page_changed = False, details = None, timestamp = now_text env\<rparr>"

definition unknown_error_result :: "probe_env \<Rightarrow> TargetInfo \<Rightarrow> string \<Rightarrow> LoginResult" where
  "unknown_error_result env t e =
     \<lparr>status = UNKNOWN_ERROR, success = False,
      message = PStr (''unknown error: '' @ take 50 e),
      response_time = elapsed env t, result_url = url t, final_url = url t,
      page_changed = False, details = None, timestamp = now_text env\<rparr>"

text \<open>The result built when the response has been evaluated.\<close>

definition evaluated_result ::
  "probe_env \<Rightarrow> TargetInfo \<Rightarrow> SystemConfig \<Rightarrow> int \<Rightarrow> string \<Rightarrow> string \<Rightarrow> bool \<Rightarrow> pyval
     \<Rightarrow> LoginResult" where
  "evaluated_result env t sys_config status_code content response_url ok msg =
     \<lparr>status = (if ok then SUCCESS else PASSWORD_ERROR), success = ok, message = msg,
      response_time = elapsed env t, result_url = url t, final_url = response_url,
      page_changed = (response_url \<noteq> url t),
      details = Some [(''system_type'', PStr (name sys_config)),
                      (''status_code'', PInt status_code),
                      (''content_length'', PInt (int (length content)))],
      timestamp = now_text env\<rparr>"

text \<open>
  \<open>_verify_sync\<close>: every exception of the \<open>try\<close> block ends in one of the three \<open>except\<close>
  clauses. A manager that returns \<open>None\<close> makes the next attribute access raise
  \<open>AttributeError\<close>.
\<close>

definition verify_sync :: "probe_env \<Rightarrow> TargetInfo \<Rightarrow> LoginResult" where
  "verify_sync env t =
     (case cm_get_system_config (manager env) (url t) of
        Inl e \<Rightarrow> unknown_error_result env t (exc_text env e)
      | Inr None \<Rightarrow> unknown_error_result env t (exc_text env AttributeError)
      | Inr (Some sys_config) \<Rightarrow>
          (case send env t of
             TimedOut \<Rightarrow> timeout_result env t
           | TransportError e \<Rightarrow> connection_error_result env t e
           | Unexpected e \<Rightarrow> unknown_error_result env t e
           | Responded status_code content response_url \<Rightarrow>
               (case check_response (json_loads env) status_code content sys_config of
                  Inl e \<Rightarrow> unknown_error_result env t (exc_text env e)
                | Inr (ok, msg) \<Rightarrow>
                    evaluated_result env t sys_config status_code content response_url ok msg)))"

text \<open>\<open>_verify_async\<close> has the same clauses, on the exceptions of \<open>aiohttp\<close>.\<close>

definition verify_async :: "probe_env \<Rightarrow> TargetInfo \<Rightarrow> LoginResult" where
  "verify_async env t =
     (case cm_get_system_config (manager env) (url t) of
        Inl e \<Rightarrow> unknown_error_result env t (exc_text env e)
      | Inr None \<Rightarrow> unknown_error_result env t (exc_text env AttributeError)
      | Inr (Some sys_config) \<Rightarrow>
          (case send env t of
             TimedOut \<Rightarrow> timeout_result env t
           | TransportError e \<Rightarrow> connection_error_result env t e
           | Unexpected e \<Rightarrow> unknown_error_result env t e
           | Responded status_code content response_url \<Rightarrow>
               (case check_response (json_loads env) status_code content sys_config of
                  Inl e \<Rightarrow> unknown_error_result env t (exc_text env e)
                | Inr (ok, msg) \<Rightarrow>
                    evaluated_result env t sys_config status_code content response_url ok msg)))"

text \<open>
  \<open>verify_batch_sync\<close>: the loop over \<open>enumerate(targets, 1)\<close>. The callbacks run outside any
  \<open>try\<close>, so an exception of theirs leaves the function (\<open>Inl\<close>). The statistics and the
  delay do not reach the returned list and are left out.
\<close>

fun batch_sync_loop ::
  "probe_env \<Rightarrow> nat \<Rightarrow> LoginResult list \<Rightarrow> TargetInfo list \<Rightarrow> string + LoginResult list" where
  "batch_sync_loop env i results_so_far [] = Inr results_so_far"
| "batch_sync_loop env i results_so_far (t # ts) =
     (let result = verify_sync env t in
      case callbacks env i t result of
        Some e \<Rightarrow> Inl e
      | None \<Rightarrow> batch_sync_loop env (Suc i) (results_so_far @ [result]) ts)"

definition verify_batch_sync :: "probe_env \<Rightarrow> TargetInfo list \<Rightarrow> string + LoginResult list" where
  "verify_batch_sync env ts = batch_sync_loop env 1 [] ts"

text \<open>
  \<open>verify_with_limit\<close>, the task of one target in \<open>verify_batch_async\<close>: the probe, then the
  callbacks, whose exception is the exception of the task. \<open>k\<close> is the number of probes
  completed when the callbacks run, which the scheduler decides.
\<close>

definition verify_with_limit :: "probe_env \<Rightarrow> nat \<Rightarrow> TargetInfo \<Rightarrow> string + LoginResult" where
  "verify_with_limit env k t =
     (let result = verify_async env t in
      case callbacks env k t result of Some e \<Rightarrow> Inl e | None \<Rightarrow> Inr result)"

text \<open>The result that replaces a task that raised.\<close>

definition task_exception_result :: "probe_env \<Rightarrow> TargetInfo \<Rightarrow> string \<Rightarrow> LoginResult" where
  "task_exception_result env t e =
     \<lparr>status = UNKNOWN_ERROR, success = False,
      message = PStr (''task exception: '' @ take 50 e),
      response_time = 0, result_url = url t, final_url = url t,
      page_changed = False, details = None, timestamp = now_text env\<rparr>"

text \<open>
  The loop after \<open>asyncio.gather(*tasks, return_exceptions=True)\<close>: \<open>targets[i]\<close> raises
  \<open>IndexError\<close> out of range.
\<close>

fun handle_exceptions ::
  "probe_env \<Rightarrow> TargetInfo list \<Rightarrow> LoginResult list \<Rightarrow> (nat \<times> (string + LoginResult)) list
     \<Rightarrow> py_error + LoginResult list" where
  "handle_exceptions env ts valid_results [] = Inr valid_results"
| "handle_exceptions env ts valid_results ((i, Inl e) # rest) =
     (if i < length ts
      then handle_exceptions env ts (valid_results @ [task_exception_result env (ts ! i) e]) rest
      else Inl IndexError)"
| "handle_exceptions env ts valid_results ((i, Inr result) # rest) =
     handle_exceptions env ts (valid_results @ [result]) rest"

text \<open>
  \<open>verify_batch_async\<close>, with the client session started: \<open>gather\<close> returns the outcomes
  of the tasks in the order of the tasks, whatever the order in which they complete;
  \<open>schedule i\<close> is the completion count the scheduler gives the task at position \<open>i\<close>.
\<close>

definition verify_batch_async ::
  "probe_env \<Rightarrow> (nat \<Rightarrow> nat) \<Rightarrow> TargetInfo list \<Rightarrow> py_error + LoginResult list" where
  "verify_batch_async env schedule ts =
     (let gathered = map (\<lambda>(i, t). verify_with_limit env (schedule i) t) (enumerate 0 ts)
      in handle_exceptions env ts [] (enumerate 0 gathered))"

text \<open>
  What the task of a target leaves in the returned list: its result, or the result that
  replaces it when the task raised.
\<close>

definition task_result :: "probe_env \<Rightarrow> nat \<Rightarrow> TargetInfo \<Rightarrow> LoginResult" where
  "task_result env k t =
     (case callbacks env k t (verify_async env t) of
        None \<Rightarrow> verify_async env t
      | Some e \<Rightarrow> task_exception_result env t e)"

section \<open>Session persistence (\<open>to_dict\<close>, \<open>from_dict\<close>, \<open>save_session\<close>, \<open>load_session\<close>)\<close>

text \<open>Running a step that may raise over a list, stopping at the first exception.\<close>

fun collect :: "('a \<Rightarrow> py_error + 'b) \<Rightarrow> 'a list \<Rightarrow> py_error + 'b list" where
  "collect f [] = Inr []"
| "collect f (x # xs) =
     (case f x of
        Inl e \<Rightarrow> Inl e
      | Inr y \<Rightarrow> (case collect f xs of Inl e \<Rightarrow> Inl e | Inr ys \<Rightarrow> Inr (y # ys)))"

text \<open>
  \<open>t.to_dict()\<close> on a target: the class \<open>TargetInfo\<close> that \<open>progress_manager.py\<close> imports
  (from \<open>async_verifier.py\<close>) defines \<open>is_valid\<close> only, so the call raises \<open>AttributeError\<close>.
\<close>

definition TargetInfo_to_dict :: "TargetInfo \<Rightarrow> py_error + pyval" where
  "TargetInfo_to_dict t = Inl AttributeError"

text \<open>The dictionary \<open>to_dict\<close> builds for one result.\<close>

definition result_to_dict :: "LoginResult \<Rightarrow> pyval" where
  "result_to_dict r =
     PDict
       [(''status'', PStr (LoginStatus_value (status r))),
        (''success'', PBool (success r)),
        (''message'', message r),
        (''response_time'', PFloat (response_time r)),
        (''url'', PStr (result_url r)),
        (''final_url'', PStr (final_url r)),
        (''page_changed'', PBool (page_changed r)),
        (''details'', (case details r of None \<Rightarrow> PNone | Some d \<Rightarrow> PDict d)),
        (''timestamp'', PStr (timestamp r)),
        (''target_index'',
           (case details r of
              None \<Rightarrow> PNone
            | Some d \<Rightarrow>
                if d = [] then PNone
                else (case map_of d ''target_index'' of None \<Rightarrow> PNone | Some v \<Rightarrow> v)))]"

text \<open>\<open>ScanSession.to_dict\<close>: the entries are evaluated in the order written.\<close>

definition to_dict :: "ScanSession \<Rightarrow> py_error + pyval" where
  "to_dict s =
     (case collect TargetInfo_to_dict (targets s) of
        Inl e \<Rightarrow> Inl e
      | Inr target_dicts \<Rightarrow>
          Inr (PDict
            [(''session_id'', PStr (session_id s)),
             (''created_at'', PStr (created_at s)),
             (''updated_at'', PStr (updated_at s)),
             (''targets'', PList target_dicts),
             (''completed_indices'', PList (map PInt (completed_indices s))),
             (''results'', PList (map result_to_dict (results s))),
             (''config'', PDict (config s)),
             (''stats'', PDict (map (\<lambda>(k, v). (k, PInt v)) (stats s)))]))"

text \<open>\<open>d.get(key, default)\<close> and \<open>d[key]\<close> on a value read from JSON, and iteration over one.\<close>

fun py_get :: "pyval \<Rightarrow> string \<Rightarrow> pyval \<Rightarrow> py_error + pyval" where
  "py_get (PDict kv) k dflt = Inr (case map_of kv k of None \<Rightarrow> dflt | Some v \<Rightarrow> v)"
| "py_get v k dflt = Inl AttributeError"

fun py_item :: "pyval \<Rightarrow> string \<Rightarrow> py_error + pyval" where
  "py_item (PDict kv) k = (case map_of kv k of None \<Rightarrow> Inl KeyError | Some v \<Rightarrow> Inr v)"
| "py_item v k = Inl TypeError"

fun py_iter :: "pyval \<Rightarrow> py_error + pyval list" where
  "py_iter (PList xs) = Inr xs"
| "py_iter (PDict kv) = Inr (map (\<lambda>(k, v). PStr k) kv)"
| "py_iter (PStr s) = Inr (map (\<lambda>c. PStr [c]) s)"
| "py_iter v = Inl TypeError"

text \<open>
  One round of the first loop of \<open>from_dict\<close>: the three subscripts are evaluated, then
  \<^verbatim>\<open>TargetInfo(url=..., username=..., password=..., extra=..., index=..., source_file=...)\<close>
  is called. The imported \<open>TargetInfo\<close> has no field \<open>source_file\<close>, so the call raises
  \<open>TypeError\<close> (unexpected keyword argument) whatever the values.
\<close>

definition target_from_dict :: "pyval \<Rightarrow> py_error + TargetInfo" where
  "target_from_dict t_data =
     (case py_item t_data ''url'' of
        Inl e \<Rightarrow> Inl e
      | Inr u \<Rightarrow>
          (case py_item t_data ''username'' of
             Inl e \<Rightarrow> Inl e
           | Inr n \<Rightarrow>
               (case py_item t_data ''password'' of
                  Inl e \<Rightarrow> Inl e
                | Inr pw \<Rightarrow> Inl TypeError)))"

text \<open>\<open>LoginStatus(value)\<close>: the member with that value, \<open>ValueError\<close> when there is none.\<close>

definition LoginStatus_of :: "pyval \<Rightarrow> py_error + LoginStatus" where
  "LoginStatus_of v =
     (case v of
        PStr s \<Rightarrow>
          (case find (\<lambda>st. LoginStatus_value st = s)
                  [SUCCESS, PASSWORD_ERROR, USERNAME_ERROR, CAPTCHA_ERROR, CAPTCHA_REQUIRED,
                   CONNECTION_ERROR, TIMEOUT_ERROR, UNKNOWN_ERROR] of
             None \<Rightarrow> Inl ValueError
           | Some st \<Rightarrow> Inr st)
      | _ \<Rightarrow> Inl ValueError)"

text \<open>
  Reading a value at the type its field declares. Nothing in \<open>from_dict\<close> checks a type:
  a value of another type is stored as it is. \<open>None\<close> here is such a value, for which the
  records of the model have no place.
\<close>

fun opt_str :: "pyval \<Rightarrow> string option" where
  "opt_str (PStr s) = Some s"
| "opt_str v = None"

fun opt_bool :: "pyval \<Rightarrow> bool option" where
  "opt_bool (PBool b) = Some b"
| "opt_bool v = None"

fun opt_float :: "pyval \<Rightarrow> rat option" where
  "opt_float (PFloat x) = Some x"
| "opt_float (PInt i) = Some (of_int i)"
| "opt_float v = None"

fun opt_int :: "pyval \<Rightarrow> int option" where
  "opt_int (PInt i) = Some i"
| "opt_int v = None"

fun opt_details :: "pyval \<Rightarrow> (string \<times> pyval) list option option" where
  "opt_details PNone = Some None"
| "opt_details (PDict d) = Some (Some d)"
| "opt_details v = None"

fun opt_dict :: "pyval \<Rightarrow> (string \<times> pyval) list option" where
  "opt_dict (PDict d) = Some d"
| "opt_dict v = None"

fun opt_int_list :: "pyval \<Rightarrow> int list option" where
  "opt_int_list (PList xs) = those (map opt_int xs)"
| "opt_int_list v = None"

fun opt_stats :: "pyval \<Rightarrow> (string \<times> int) list option" where
  "opt_stats (PDict kv) = those (map (\<lambda>(k, v). map_option (Pair k) (opt_int v)) kv)"
| "opt_stats v = None"

text \<open>Sequencing of steps that may raise.\<close>

definition and_then :: "py_error + 'a \<Rightarrow> ('a \<Rightarrow> py_error + 'b) \<Rightarrow> py_error + 'b" where
  "and_then m f = (case m of Inl e \<Rightarrow> Inl e | Inr x \<Rightarrow> f x)"

text \<open>
  The \<open>LoginResult\<close> built from the values read, when each has the type of its field.
\<close>

definition typed_result ::
  "LoginStatus \<Rightarrow> pyval \<Rightarrow> pyval \<Rightarrow> pyval \<Rightarrow> pyval \<Rightarrow> pyval \<Rightarrow> pyval \<Rightarrow> pyval \<Rightarrow> pyval
     \<Rightarrow> LoginResult option" where
  "typed_result st ok msg rt u fu pc d ts =
     Option.bind (opt_bool ok) (\<lambda>ok'.
     Option.bind (opt_float rt) (\<lambda>rt'.
     Option.bind (opt_str u) (\<lambda>u'.
     Option.bind (opt_str fu) (\<lambda>fu'.
     Option.bind (opt_bool pc) (\<lambda>pc'.
     Option.bind (opt_details d) (\<lambda>d'.
     Option.bind (opt_str ts) (\<lambda>ts'.
       Some \<lparr>status = st, success = ok', message = msg, response_time = rt',
             result_url = u', final_url = fu', page_changed = pc', details = d',
             timestamp = ts'\<rparr>)))))))"

text \<open>
  One round of the second loop of \<open>from_dict\<close>. The exceptions are those of the source, in
  its order: a subscript on a missing key, \<open>LoginStatus(...)\<close> on a value that is no member;
  \<open>details\<close> and \<open>timestamp\<close> are read with \<open>get\<close> and are \<open>None\<close> when absent. \<open>Inr None\<close> is a
  result object built with a field outside its declared type.
\<close>

definition result_from_dict :: "pyval \<Rightarrow> py_error + LoginResult option" where
  "result_from_dict r_data =
     and_then (and_then (py_item r_data ''status'') LoginStatus_of) (\<lambda>st.
     and_then (py_item r_data ''success'') (\<lambda>ok.
     and_then (py_item r_data ''message'') (\<lambda>msg.
     and_then (py_item r_data ''response_time'') (\<lambda>rt.
     and_then (py_item r_data ''url'') (\<lambda>u.
     and_then (py_item r_data ''final_url'') (\<lambda>fu.
     and_then (py_item r_data ''page_changed'') (\<lambda>pc.
     and_then (py_get r_data ''details'' PNone) (\<lambda>d.
     and_then (py_get r_data ''timestamp'' PNone) (\<lambda>ts.
       Inr (typed_result st ok msg rt u fu pc d ts))))))))))"

text \<open>The truth value of a value, as \<open>not\<close> reads it.\<close>

fun py_falsy :: "pyval \<Rightarrow> bool" where
  "py_falsy PNone = True"
| "py_falsy (PBool b) = (\<not> b)"
| "py_falsy (PInt i) = (i = 0)"
| "py_falsy (PFloat x) = (x = 0)"
| "py_falsy (PStr s) = (s = [])"
| "py_falsy (PList xs) = (xs = [])"
| "py_falsy (PDict kv) = (kv = [])"

text \<open>
  The \<open>ScanSession\<close> built by \<open>cls(...)\<close> and \<open>__post_init__\<close> from the values read, when
  each has the type of its field: \<open>fresh_id\<close> is the identifier \<open>_generate_session_id\<close>
  would make and \<open>now\<close> the text of the clock, which replace a \<open>session_id\<close> and a
  \<open>created_at\<close> that are false; an \<open>updated_at\<close> that is false becomes \<open>created_at\<close>.
\<close>

definition typed_session ::
  "string \<Rightarrow> string \<Rightarrow> TargetInfo list \<Rightarrow> LoginResult option list \<Rightarrow> pyval \<Rightarrow> pyval \<Rightarrow> pyval
     \<Rightarrow> pyval \<Rightarrow> pyval \<Rightarrow> pyval \<Rightarrow> ScanSession option" where
  "typed_session fresh_id now ts rs sid ca ua ci cf st =
     (let sid1 = (if py_falsy sid then Some fresh_id else opt_str sid);
          ca1 = (if py_falsy ca then Some now else opt_str ca);
          ua1 = (if py_falsy ua then ca1 else opt_str ua)
      in
        Option.bind sid1 (\<lambda>sid'.
        Option.bind ca1 (\<lambda>ca'.
        Option.bind ua1 (\<lambda>ua'.
        Option.bind (those rs) (\<lambda>rs'.
        Option.bind (opt_int_list ci) (\<lambda>ci'.
        Option.bind (opt_dict cf) (\<lambda>cf'.
        Option.bind (opt_stats st) (\<lambda>st'.
          Some \<lparr>session_id = sid', created_at = ca', updated_at = ua', targets = ts,
                completed_indices = ci', results = rs', config = cf', stats = st'\<rparr>))))))))"

text \<open>
  \<open>ScanSession.from_dict\<close>: the two loops, which may raise, then the reads with \<open>get\<close>, which
  do not. \<open>Inr None\<close> is a session object built with a field outside its declared type.
\<close>

definition from_dict :: "string \<Rightarrow> string \<Rightarrow> pyval \<Rightarrow> py_error + ScanSession option" where
  "from_dict fresh_id now data =
     and_then (and_then (and_then (py_get data ''targets'' (PList [])) py_iter)
                 (collect target_from_dict)) (\<lambda>ts.
     and_then (and_then (and_then (py_get data ''results'' (PList [])) py_iter)
                 (collect result_from_dict)) (\<lambda>rs.
     and_then (py_get data ''session_id'' PNone) (\<lambda>sid.
     and_then (py_get data ''created_at'' PNone) (\<lambda>ca.
     and_then (py_get data ''updated_at'' PNone) (\<lambda>ua.
     and_then (py_get data ''completed_indices'' (PList [])) (\<lambda>ci.
     and_then (py_get data ''config'' (PDict [])) (\<lambda>cf.
     and_then (py_get data ''stats'' (PDict [])) (\<lambda>st.
       Inr (typed_session fresh_id now ts rs sid ca ua ci cf st)))))))))"

text \<open>
  \<open>class ProgressManager\<close>. The directory \<open>save_dir\<close> is a map from file names to contents;
  the content of a file is the JSON value it holds, or \<open>None\<close> when the file holds no JSON
  document (an empty file). \<open>json.dump\<close> followed by \<open>json.load\<close> gives the value back. The
  attribute \<open>current_session\<close> only supplies the default of the argument of \<open>save_session\<close>
  and is left out.
\<close>

record ProgressManager =
  files :: "string \<rightharpoonup> pyval option"

definition session_file :: "string \<Rightarrow> string" where
  "session_file sid = sid @ ''.json''"

text \<open>
  \<open>save_session\<close>:
  \<^verbatim>\<open>with open(filepath, 'w', encoding='utf-8') as f:
    json.dump(session.to_dict(), f, indent=2, ensure_ascii=False)\<close>
  The file is opened, and so emptied, before \<open>to_dict\<close> runs; an exception is caught and
  the answer is \<open>False\<close>. The argument is \<open>session or self.current_session\<close>: \<open>None\<close> when
  there is neither.
\<close>

definition save_session :: "ScanSession option \<Rightarrow> ProgressManager \<Rightarrow> bool \<times> ProgressManager" where
  "save_session arg m =
     (case arg of
        None \<Rightarrow> (False, m)
      | Some s \<Rightarrow>
          (let path = session_file (session_id s);
               opened = m\<lparr>files := (files m)(path \<mapsto> None)\<rparr>
           in case to_dict s of
                Inl e \<Rightarrow> (False, opened)
              | Inr doc \<Rightarrow> (True, m\<lparr>files := (files m)(path \<mapsto> Some doc)\<rparr>)))"

text \<open>
  What \<open>load_session\<close> returns: \<open>None\<close>, a session, or a session object with a field
  outside its declared type.
\<close>

datatype loaded = NotLoaded | Loaded ScanSession | LoadedIllTyped

text \<open>\<open>load_session\<close>: every exception is caught and the answer is \<open>None\<close>.\<close>

definition load_session ::
  "string \<Rightarrow> string \<Rightarrow> string \<Rightarrow> ProgressManager \<Rightarrow> loaded \<times> ProgressManager" where
  "load_session fresh_id now sid m =
     (case files m (session_file sid) of
        None \<Rightarrow> (NotLoaded, m)
      | Some None \<Rightarrow> (NotLoaded, m)
      | Some (Some data) \<Rightarrow>
          (case from_dict fresh_id now data of
             Inl e \<Rightarrow> (NotLoaded, m)
           | Inr None \<Rightarrow> (LoadedIllTyped, m)
           | Inr (Some s) \<Rightarrow> (Loaded s, m)))"

section \<open>Concrete values\<close>

definition ex_target :: "string \<Rightarrow> int \<Rightarrow> TargetInfo" where
  "ex_target u i =
     \<lparr>url = u, username = ''admin'', password = ''123456'', extra = None, index = i\<rparr>"

definition ex_result :: "LoginStatus \<Rightarrow> bool \<Rightarrow> string \<Rightarrow> LoginResult" where
  "ex_result st ok u =
     \<lparr>status = st, success = ok, message = PStr (LoginStatus_value st), response_time = 1 / 2,
      result_url = u, final_url = u, page_changed = False, details = None,
      timestamp = ''2024-01-01 00:00:00''\<rparr>"

definition ex_session :: "TargetInfo list \<Rightarrow> ScanSession" where
  "ex_session ts =
     \<lparr>session_id = ''scan_1'', created_at = ''2024-01-01 00:00:00'',
      updated_at = ''2024-01-01 00:00:00'', targets = ts, completed_indices = [],
      results = [], config = [], stats = []\<rparr>"

definition ex_proxy :: "string \<Rightarrow> ProxyInfo" where
  "ex_proxy h =
     \<lparr>host = h, port = 8080, proxy_username = None, proxy_password = None, proxy_type = HTTP\<rparr>"

text \<open>A pool of two proxies that have both reached the limit of three failures.\<close>

definition ex_pool :: "string \<Rightarrow> ProxyPool" where
  "ex_pool strategy =
     \<lparr>proxies = [ex_proxy ''p1.test'', ex_proxy ''p2.test''], enabled = True, max_failures = 3,
      rotation_strategy = strategy, failures = [0 \<mapsto> 3, 1 \<mapsto> 4], current_index = 5\<rparr>"


definition ex_indicator :: "string \<Rightarrow> ind_val \<Rightarrow> indicator" where
  "ex_indicator ty v = \<lparr>ind_type = Some ty, ind_value = v\<rparr>"

definition ex_pattern :: "string \<Rightarrow> string \<Rightarrow> pattern" where
  "ex_pattern ty v = \<lparr>p_type = Some ty, p_value = Some v\<rparr>"

text \<open>The profile \<open>shanying_crm\<close> of \<open>DEFAULT_CONFIG\<close>.\<close>

definition shanying_crm :: SystemConfig where
  "shanying_crm =
     \<lparr>name = ''shanying CRM'',
      patterns = [ex_pattern ''url_contains'' ''shanyingintl'',
                  ex_pattern ''url_contains'' ''crmzzapp''],
      login_endpoint = ''/api/user/login'', http_method = ''POST'',
      content_type = ''application/json'', username_field = ''UserName'',
      password_field = ''UserPwd'', password_encryption = Some ''none'',
      headers = [(''X-Source'', ''4''), (''Accept'', ''application/json, text/plain, */*'')],
      success_indicators = [ex_indicator ''status_code'' (IInt 200),
                            ex_indicator ''body_length_gt'' (IInt 100),
                            ex_indicator ''body_not_contains'' (IStr ''Message'')],
      failure_indicators = [ex_indicator ''body_contains'' (IStr ''Message'')]\<rparr>"

text \<open>
  A body that is a JSON object with a \<open>Message\<close>, and \<open>json.loads\<close> on the bodies of the
  examples: the others are not JSON documents.
\<close>

definition ex_body :: string where
  \<open>ex_body = ''{"Message":"bad password"}''\<close>

definition ex_json_loads :: "string \<Rightarrow> pyval option" where
  "ex_json_loads s =
     (if s = ex_body then Some (PDict [(''Message'', PStr ''bad password'')]) else None)"

text \<open>
  The fingerprint \<open>shanyingintl_crm\<close> of \<open>weakpass_scanner_gui.py\<close>: the profile above with the
  three patterns the fingerprint has, the third a \<open>path_contains\<close>.
\<close>

definition crm_fingerprint :: SystemConfig where
  "crm_fingerprint =
     shanying_crm\<lparr>patterns := [ex_pattern ''url_contains'' ''shanyingintl'',
                              ex_pattern ''url_contains'' ''crmzzapp'',
                              ex_pattern ''path_contains'' ''/api/user/login'']\<rparr>"

text \<open>The profile \<open>generic\<close> of \<open>ConfigManager.DEFAULT_CONFIG\<close>.\<close>

definition generic_profile :: SystemConfig where
  "generic_profile =
     \<lparr>name = ''generic login'', patterns = [], login_endpoint = ''/login'',
      http_method = ''POST'', content_type = ''application/json'',
      username_field = ''username'', password_field = ''password'',
      password_encryption = Some ''none'', headers = [],
      success_indicators = [ex_indicator ''status_code'' (IInt 200),
                            ex_indicator ''body_length_gt'' (IInt 50)],
      failure_indicators = [ex_indicator ''body_contains'' (IStr ''error''),
                            ex_indicator ''body_contains'' (IStr ''failed''),
                            ex_indicator ''status_code'' (IInt 401)]\<rparr>"

text \<open>
  A profile whose only failure indicator is a \<open>body_not_contains\<close> and whose only success
  indicator is the status 200.
\<close>

definition token_profile :: SystemConfig where
  "token_profile =
     generic_profile\<lparr>success_indicators := [ex_indicator ''status_code'' (IInt 200)],
                     failure_indicators := [ex_indicator ''body_not_contains'' (IStr ''token'')]\<rparr>"

definition ex_systems :: "(string \<times> SystemConfig) list" where
  "ex_systems = [(''shanying_crm'', crm_fingerprint), (''generic'', generic_profile)]"

definition ex_default_systems :: "(string \<times> SystemConfig) list" where
  "ex_default_systems = [(''shanying_crm'', shanying_crm), (''generic'', generic_profile)]"

text \<open>
  Three targets and their surroundings: the first is answered with status 200 and a body
  of 100 characters, the probe of the second raises an exception, the third times out;
  the callbacks raise at the third.
\<close>

definition ex_send :: "TargetInfo \<Rightarrow> send_outcome" where
  "ex_send t =
     (if url t = ''http://a.test/'' then Responded 200 (replicate 100 (CHR ''x'')) ''http://a.test/''
      else if url t = ''http://b.test/'' then Unexpected ''boom''
      else TimedOut)"

definition ex_env :: probe_env where
  "ex_env =
     \<lparr>manager = ConfigManager ex_default_systems, json_loads = ex_json_loads, send = ex_send,
      elapsed = (\<lambda>t. 1 / 4), now_text = ''2024-01-01 00:00:00'',
      exc_text = (\<lambda>e. ''error''),
      callbacks = (\<lambda>k t r. if url t = ''http://c.test/'' then Some ''callback failed'' else None)\<rparr>"

definition ex_targets :: "TargetInfo list" where
  "ex_targets = [ex_target ''http://a.test/'' 0, ex_target ''http://b.test/'' 1,
                 ex_target ''http://c.test/'' 2]"

text \<open>
  A manager with an empty directory, and a document in the persisted format that holds
  one target.
\<close>

definition ex_manager :: ProgressManager where
  "ex_manager = \<lparr>files = Map.empty\<rparr>"

definition ex_document :: pyval where
  "ex_document =
     PDict
       [(''session_id'', PStr ''scan_1''),
        (''created_at'', PStr ''2024-01-01 00:00:00''),
        (''updated_at'', PStr ''2024-01-01 00:00:00''),
        (''targets'',
           PList [PDict [(''url'', PStr ''http://a.test/''), (''username'', PStr ''admin''),
                         (''password'', PStr ''123456''), (''index'', PInt 0)]]),
        (''completed_indices'', PList []),
        (''results'', PList []),
        (''config'', PDict []),
        (''stats'', PDict [])]"

section \<open>Session store: properties\<close>

lemma remaining_enumerate:
  "map snd (filter (\<lambda>(i, t). P i) (enumerate n xs)) = nths xs {i. P (i + n)}"
proof (induction xs arbitrary: n)
  case Nil
  show ?case by simp
next
  case (Cons x xs)
  have "map snd (filter (\<lambda>(i, t). P i) (enumerate (Suc n) xs)) = nths xs {i. P (i + Suc n)}"
    by (rule Cons.IH)
  then show ?case by (simp add: nths_Cons)
qed

text \<open>
  Claim C6. \<open>get_remaining_targets\<close> returns the targets whose position is absent from
  \<open>completed_indices\<close>, in the order of the target list (\<^const>\<open>nths\<close> keeps the elements at
  the positions of a set, in order); after \<open>add_result\<close> for the positions 0 and 2 of three
  targets it returns exactly the target at position 1.
\<close>

theorem get_remaining_targets_order:
  "get_remaining_targets s = nths (targets s) {i. int i \<notin> set (completed_indices s)}
   \<and> get_remaining_targets
        (add_result now2 2 r2 (add_result now0 0 r0
           (s\<lparr>targets := [t0, t1, t2], completed_indices := []\<rparr>))) = [t1]"
proof
  show "get_remaining_targets s = nths (targets s) {i. int i \<notin> set (completed_indices s)}"
    unfolding get_remaining_targets_def
    using remaining_enumerate [of "\<lambda>i. int i \<notin> set (completed_indices s)" 0 "targets s"]
    by simp
next
  show "get_remaining_targets
        (add_result now2 2 r2 (add_result now0 0 r0
           (s\<lparr>targets := [t0, t1, t2], completed_indices := []\<rparr>))) = [t1]"
    by (simp add: get_remaining_targets_def add_result_def update_stats_def enumerate_eq_zip
        upt_rec)
qed

text \<open>The theorem at a session of three targets.\<close>

theorem get_remaining_targets_order_witness:
  "get_remaining_targets
     (add_result ''2024-01-01 00:00:02'' 2 (ex_result PASSWORD_ERROR False ''http://c.test/'')
       (add_result ''2024-01-01 00:00:01'' 0 (ex_result SUCCESS True ''http://a.test/'')
         (ex_session [ex_target ''http://a.test/'' 0, ex_target ''http://b.test/'' 1,
                      ex_target ''http://c.test/'' 2])))
   = [ex_target ''http://b.test/'' 1]"
  using get_remaining_targets_order
    [of "ex_session [ex_target ''http://a.test/'' 0, ex_target ''http://b.test/'' 1,
                      ex_target ''http://c.test/'' 2]"
        "''2024-01-01 00:00:02''" "ex_result PASSWORD_ERROR False ''http://c.test/''"
        "''2024-01-01 00:00:01''" "ex_result SUCCESS True ''http://a.test/''"
        "ex_target ''http://a.test/'' 0" "ex_target ''http://b.test/'' 1"
        "ex_target ''http://c.test/'' 2"]
  by (simp add: ex_session_def)

text \<open>The replacement loop never replaces: every call appends.\<close>

lemma replace_or_append_appends: "replace_or_append idx new rs = rs @ [new]"
  by (induction rs) (simp_all add: result_is_for_def getattr_target_def)

lemma add_result_twice_results:
  "results (add_result now2 idx r2 (add_result now1 idx r1 s)) = results s @ [r1, r2]"
  by (simp add: add_result_def update_stats_def replace_or_append_appends)

lemma add_result_twice_completed:
  "idx \<notin> set (completed_indices s) \<Longrightarrow>
   completed_indices (add_result now2 idx r2 (add_result now1 idx r1 s))
     = completed_indices s @ [idx]"
  by (simp add: add_result_def update_stats_def)

text \<open>
  Claim C2. The claim: after \<open>add_result(index, r1)\<close> and \<open>add_result(index, r2)\<close> the index is
  once in \<open>completed_indices\<close> and one result is recorded for it, \<open>r2\<close> in the place of \<open>r1\<close>.
  The code, on a session of one target with the results \<open>r1\<close> (a password error) and \<open>r2\<close>
  (a success) added at index 0: the index is recorded once, but both results are kept,
  and the recomputed statistics count one success and one failure for a single target.
\<close>

theorem add_result_twice_keeps_both:
  "results (add_result ''2024-01-01 00:00:02'' 0 (ex_result SUCCESS True ''http://a.test/'')
      (add_result ''2024-01-01 00:00:01'' 0 (ex_result PASSWORD_ERROR False ''http://a.test/'')
         (ex_session [ex_target ''http://a.test/'' 0])))
   = [ex_result PASSWORD_ERROR False ''http://a.test/'', ex_result SUCCESS True ''http://a.test/'']
   \<and> completed_indices
        (add_result ''2024-01-01 00:00:02'' 0 (ex_result SUCCESS True ''http://a.test/'')
          (add_result ''2024-01-01 00:00:01'' 0 (ex_result PASSWORD_ERROR False ''http://a.test/'')
            (ex_session [ex_target ''http://a.test/'' 0]))) = [0]
   \<and> map (stat
        (add_result ''2024-01-01 00:00:02'' 0 (ex_result SUCCESS True ''http://a.test/'')
          (add_result ''2024-01-01 00:00:01'' 0 (ex_result PASSWORD_ERROR False ''http://a.test/'')
            (ex_session [ex_target ''http://a.test/'' 0]))))
        [''total'', ''completed'', ''success'', ''failed'']
      = [Some 1, Some 1, Some 1, Some 1]"
  by (simp add: add_result_def update_stats_def ex_session_def ex_result_def stat_def
      result_is_for_def getattr_target_def)

text \<open>
  Claim C3. The claim: \<open>success\<close>, \<open>errors\<close> and \<open>failed\<close> partition the results, and no result
  with status \<open>CONNECTION_ERROR\<close> or \<open>TIMEOUT_ERROR\<close> is counted in \<open>failed\<close>. The code, on a
  session whose single result is a connection error: the result is counted in \<open>failed\<close> and
  in \<open>errors\<close>.
\<close>

theorem update_stats_counts_connection_error_twice:
  "length (results
     (add_result ''2024-01-01 00:00:01'' 0 (ex_result CONNECTION_ERROR False ''http://a.test/'')
        (ex_session [ex_target ''http://a.test/'' 0]))) = 1
   \<and> map (stat
        (add_result ''2024-01-01 00:00:01'' 0 (ex_result CONNECTION_ERROR False ''http://a.test/'')
           (ex_session [ex_target ''http://a.test/'' 0])))
        [''success'', ''failed'', ''errors'']
      = [Some 0, Some 1, Some 1]"
  by (simp add: add_result_def update_stats_def ex_session_def ex_result_def stat_def
      result_is_for_def getattr_target_def is_error_status_def)

section \<open>Proxy rotation pool: properties\<close>

lemma min_by_key_mem: "min_by_key f best xs \<in> set (best # xs)"
  by (induction xs arbitrary: best) (auto split: if_splits)

lemma enumerate_snd_mem: "p \<in> set (enumerate n xs) \<Longrightarrow> snd p \<in> set xs"
  by (metis in_set_zipE enumerate_eq_zip prod.collapse)

lemma enumerate_fst_less: "p \<in> set (enumerate 0 xs) \<Longrightarrow> fst p < length xs"
  by (cases p) (simp add: in_set_enumerate_eq)

lemma all_failed_none_available:
  assumes "\<forall>idx < length (proxies pool). max_failures pool \<le> failures_get pool idx"
  shows "filter (\<lambda>(idx, proxy). failures_get pool idx < max_failures pool)
           (enumerate 0 (proxies pool)) = []"
proof -
  have "\<not> failures_get pool (fst p) < max_failures pool"
    if "p \<in> set (enumerate 0 (proxies pool))" for p
    using assms enumerate_fst_less [OF that] by (simp add: not_less)
  then show ?thesis by (auto simp: filter_empty_conv)
qed

lemma get_proxy_after_reset:
  assumes en: "enabled pool" and ne: "proxies pool \<noteq> []"
    and av: "filter (\<lambda>(idx, proxy). failures_get pool idx < max_failures pool)
           (enumerate 0 (proxies pool)) = []"
  shows "(\<exists>proxy \<in> set (proxies pool). fst (get_proxy k pool) = Some proxy)
       \<and> failures (snd (get_proxy k pool)) = failures (reset_failures pool)"
proof -
  let ?av = "enumerate 0 (proxies pool)"
  let ?pool1 = "reset_failures pool"
  have ne': "?av \<noteq> []" using ne by (cases "proxies pool") simp_all
  have len: "0 < length ?av" using ne by simp
  have nth_ok: "snd (?av ! j) \<in> set (proxies pool)" if "j < length ?av" for j
    using that enumerate_snd_mem [of "?av ! j" 0 "proxies pool"] nth_mem by blast
  have a: "snd (?av ! (k mod length ?av)) \<in> set (proxies pool)"
    using len by (intro nth_ok) simp
  have b: "snd (?av ! nat (current_index ?pool1 mod int (length ?av))) \<in> set (proxies pool)"
  proof (intro nth_ok)
    have "0 < int (length ?av)" using len by simp
    then have "current_index ?pool1 mod int (length ?av) < int (length ?av)"
      and "0 \<le> current_index ?pool1 mod int (length ?av)"
      by simp_all
    then show "nat (current_index ?pool1 mod int (length ?av)) < length ?av"
      by linarith
  qed
  have "min_by_key (\<lambda>x. failures_get ?pool1 (fst x)) (hd ?av) (tl ?av) \<in> set (hd ?av # tl ?av)"
    by (rule min_by_key_mem)
  then have "min_by_key (\<lambda>x. failures_get ?pool1 (fst x)) (hd ?av) (tl ?av) \<in> set ?av"
    using ne' by simp
  then have c:
    "snd (min_by_key (\<lambda>x. failures_get ?pool1 (fst x)) (hd ?av) (tl ?av)) \<in> set (proxies pool)"
    by (rule enumerate_snd_mem)
  show ?thesis
    using en ne ne' a b c unfolding get_proxy_def Let_def av
    by (simp add: reset_failures_def)
qed

text \<open>
  Claim C8. \<open>get_proxy\<close> returns \<open>None\<close> (and leaves the pool as it is) when the pool is
  disabled or has no proxy; when it is enabled and not empty and every proxy's failure
  count has reached \<open>max_failures\<close>, it returns a proxy of the list and every failure count
  of the pool is zero afterwards. This holds for each rotation strategy and each draw \<open>k\<close>.
\<close>

theorem get_proxy_resets_when_all_failed:
  "((\<not> enabled pool \<or> proxies pool = []) \<longrightarrow> get_proxy k pool = (None, pool))
   \<and> (enabled pool \<and> proxies pool \<noteq> []
        \<and> (\<forall>idx < length (proxies pool). max_failures pool \<le> failures_get pool idx)
      \<longrightarrow> (\<exists>proxy \<in> set (proxies pool). fst (get_proxy k pool) = Some proxy)
          \<and> (\<forall>idx < length (proxies pool). failures (snd (get_proxy k pool)) idx = Some 0))"
proof (intro conjI impI)
  assume "\<not> enabled pool \<or> proxies pool = []"
  then show "get_proxy k pool = (None, pool)" by (auto simp: get_proxy_def)
next
  assume h: "enabled pool \<and> proxies pool \<noteq> []
        \<and> (\<forall>idx < length (proxies pool). max_failures pool \<le> failures_get pool idx)"
  then have av: "filter (\<lambda>(idx, proxy). failures_get pool idx < max_failures pool)
           (enumerate 0 (proxies pool)) = []"
    using all_failed_none_available by blast
  from h av show "\<exists>proxy \<in> set (proxies pool). fst (get_proxy k pool) = Some proxy"
    using get_proxy_after_reset [of pool k] by blast
  from h av have "failures (snd (get_proxy k pool)) = failures (reset_failures pool)"
    using get_proxy_after_reset [of pool k] by blast
  then show "\<forall>idx < length (proxies pool). failures (snd (get_proxy k pool)) idx = Some 0"
    by (simp add: reset_failures_def)
qed

text \<open>
  The theorem at the pool of two failed proxies, disabled and enabled; with the cursor at
  5 the round-robin choice after the reset is the second proxy.
\<close>

theorem get_proxy_resets_when_all_failed_witness:
  "get_proxy 7 ((ex_pool ''round_robin'')\<lparr>enabled := False\<rparr>)
     = (None, (ex_pool ''round_robin'')\<lparr>enabled := False\<rparr>)
   \<and> enabled (ex_pool ''round_robin'') \<and> proxies (ex_pool ''round_robin'') \<noteq> []
   \<and> length (proxies (ex_pool ''round_robin'')) = 2
   \<and> max_failures (ex_pool ''round_robin'') \<le> failures_get (ex_pool ''round_robin'') 0
   \<and> max_failures (ex_pool ''round_robin'') \<le> failures_get (ex_pool ''round_robin'') 1
   \<and> fst (get_proxy 7 (ex_pool ''round_robin'')) = Some (ex_proxy ''p2.test'')
   \<and> failures (snd (get_proxy 7 (ex_pool ''round_robin''))) 0 = Some 0
   \<and> failures (snd (get_proxy 7 (ex_pool ''round_robin''))) 1 = Some 0"
proof -
  have off: "\<not> enabled ((ex_pool ''round_robin'')\<lparr>enabled := False\<rparr>)" by simp
  have len: "length (proxies (ex_pool ''round_robin'')) = 2"
    by (simp add: ex_pool_def)
  have c0: "max_failures (ex_pool ''round_robin'') \<le> failures_get (ex_pool ''round_robin'') 0"
    and c1: "max_failures (ex_pool ''round_robin'') \<le> failures_get (ex_pool ''round_robin'') 1"
    by (simp_all add: ex_pool_def failures_get_def)
  have hyp: "enabled (ex_pool ''round_robin'') \<and> proxies (ex_pool ''round_robin'') \<noteq> []
   \<and> (\<forall>idx < length (proxies (ex_pool ''round_robin'')).
         max_failures (ex_pool ''round_robin'') \<le> failures_get (ex_pool ''round_robin'') idx)"
    using c0 c1 by (simp add: ex_pool_def less_Suc_eq)
  have ev: "fst (get_proxy 7 (ex_pool ''round_robin'')) = Some (ex_proxy ''p2.test'')"
    by (simp add: get_proxy_def ex_pool_def failures_get_def enumerate_eq_zip upt_rec
        reset_failures_def)
  have zero: "\<forall>idx < length (proxies (ex_pool ''round_robin'')).
         failures (snd (get_proxy 7 (ex_pool ''round_robin''))) idx = Some 0"
    using hyp get_proxy_resets_when_all_failed [of "ex_pool ''round_robin''" 7] by blast
  have z0: "failures (snd (get_proxy 7 (ex_pool ''round_robin''))) 0 = Some 0"
    and z1: "failures (snd (get_proxy 7 (ex_pool ''round_robin''))) 1 = Some 0"
    using zero len by simp_all
  have none: "get_proxy 7 ((ex_pool ''round_robin'')\<lparr>enabled := False\<rparr>)
     = (None, (ex_pool ''round_robin'')\<lparr>enabled := False\<rparr>)"
    using off get_proxy_resets_when_all_failed [of "(ex_pool ''round_robin'')\<lparr>enabled := False\<rparr>" 7]
    by blast
  from none hyp len c0 c1 ev z0 z1 show ?thesis by blast
qed

section \<open>Credential encoder: properties\<close>











section \<open>Response heuristic: properties\<close>

lemma val_eq_int_iff: "val_eq_int n v = (v = IInt n)"
  by (cases v) auto

lemma check_failure_find:
  "list_all well_typed inds \<Longrightarrow>
   check_failure jl sc content inds =
     Inr (case find (indicator_holds sc content) (filter scanned_as_failure inds) of
            None \<Rightarrow> None
          | Some ind \<Rightarrow>
              Some (False,
                if ind_type ind = Some ''body_contains''
                then body_failure_message jl content (ind_value ind)
                else PStr (''HTTP status code: '' @ py_str (ind_value ind))))"
proof (induction inds)
  case Nil
  show ?case by simp
next
  case (Cons ind inds)
  then have wt: "well_typed ind" and rest: "list_all well_typed inds" by simp_all
  note IH = Cons.IH [OF rest]
  consider (bc) "ind_type ind = Some ''body_contains''"
    | (sc) "ind_type ind = Some ''status_code''"
    | (other) "ind_type ind \<noteq> Some ''body_contains''" "ind_type ind \<noteq> Some ''status_code''"
    by blast
  then show ?case
  proof cases
    case bc
    with wt obtain s where s: "ind_value ind = IStr s"
      by (auto simp: well_typed_def split: ind_val.splits)
    show ?thesis using bc s IH by (simp add: scanned_as_failure_def indicator_holds_def)
  next
    case sc
    show ?thesis
      using sc IH by (simp add: scanned_as_failure_def indicator_holds_def val_eq_int_iff)
  next
    case other
    show ?thesis using other IH by (simp add: scanned_as_failure_def)
  qed
qed

lemma count_success_filter:
  "list_all well_typed inds \<Longrightarrow>
   count_success sc content n inds = Inr (n + length (filter (indicator_holds sc content) inds))"
proof (induction inds arbitrary: n)
  case Nil
  show ?case by simp
next
  case (Cons ind inds)
  then have wt: "well_typed ind" and rest: "list_all well_typed inds" by simp_all
  note IH = Cons.IH [OF rest]
  consider (sc) "ind_type ind = Some ''status_code''"
    | (len) "ind_type ind = Some ''body_length_gt''"
    | (bc) "ind_type ind = Some ''body_contains''"
    | (bnc) "ind_type ind = Some ''body_not_contains''"
    | (other) "ind_type ind \<noteq> Some ''status_code''" "ind_type ind \<noteq> Some ''body_length_gt''"
        "ind_type ind \<noteq> Some ''body_contains''" "ind_type ind \<noteq> Some ''body_not_contains''"
    by blast
  then show ?case
  proof cases
    case sc
    then show ?thesis using IH by (simp add: indicator_holds_def val_eq_int_iff)
  next
    case len
    with wt obtain k where k: "ind_value ind = IInt k"
      by (auto simp: well_typed_def split: ind_val.splits)
    show ?thesis using len k IH by (simp add: indicator_holds_def)
  next
    case bc
    with wt obtain s where s: "ind_value ind = IStr s"
      by (auto simp: well_typed_def split: ind_val.splits)
    show ?thesis using bc s IH by (simp add: indicator_holds_def)
  next
    case bnc
    with wt obtain s where s: "ind_value ind = IStr s"
      by (auto simp: well_typed_def split: ind_val.splits)
    show ?thesis using bnc s IH by (simp add: indicator_holds_def)
  next
    case other
    then show ?thesis using IH by (simp add: indicator_holds_def)
  qed
qed



text \<open>
  Claim C5, as the code has it. On well-typed indicators \<open>evaluate\<close> returns. It first
  scans the failure indicators of kind \<open>body_contains\<close> and \<open>status_code\<close> in declaration
  order, passing over those of the two other kinds: if one of the scanned indicators
  holds, the answer is \<open>(False, message)\<close> for the first that does, and for a
  \<open>body_contains\<close> the message is the \<open>Message\<close> field of the body when the body parses as
  a JSON object that has one. Otherwise the answer is success exactly when the success
  indicators that hold, of any of the four kinds, number at least
  \<open>max(1, len div 2 + 1)\<close>, and a failure with the message \<open>unknown response\<close> if not.
\<close>

theorem check_response_order:
  "list_all well_typed (failure_indicators cfg) \<Longrightarrow>
   list_all well_typed (success_indicators cfg) \<Longrightarrow>
   check_response jl sc content cfg =
     Inr (case find (indicator_holds sc content)
                 (filter scanned_as_failure (failure_indicators cfg)) of
            Some ind \<Rightarrow>
              (False,
               if ind_type ind = Some ''body_contains''
               then body_failure_message jl content (ind_value ind)
               else PStr (''HTTP status code: '' @ py_str (ind_value ind)))
          | None \<Rightarrow>
              if length (filter (indicator_holds sc content) (success_indicators cfg))
                   \<ge> max 1 (length (success_indicators cfg) div 2 + 1)
              then (True, PStr ''login success'')
              else (False, PStr ''unknown response''))
   \<and> (\<forall>kv m v. jl content = Some (PDict kv) \<and> map_of kv ''Message'' = Some m
         \<longrightarrow> body_failure_message jl content v = m)"
proof (intro conjI allI impI)
  assume f: "list_all well_typed (failure_indicators cfg)"
    and s: "list_all well_typed (success_indicators cfg)"
  show "check_response jl sc content cfg =
     Inr (case find (indicator_holds sc content)
                 (filter scanned_as_failure (failure_indicators cfg)) of
            Some ind \<Rightarrow>
              (False,
               if ind_type ind = Some ''body_contains''
               then body_failure_message jl content (ind_value ind)
               else PStr (''HTTP status code: '' @ py_str (ind_value ind)))
          | None \<Rightarrow>
              if length (filter (indicator_holds sc content) (success_indicators cfg))
                   \<ge> max 1 (length (success_indicators cfg) div 2 + 1)
              then (True, PStr ''login success'')
              else (False, PStr ''unknown response''))"
    unfolding check_response_def
    by (simp add: check_failure_find [OF f] count_success_filter [OF s] split: option.splits)
next
  fix kv m v
  assume "jl content = Some (PDict kv) \<and> map_of kv ''Message'' = Some m"
  then show "body_failure_message jl content v = m"
    by (simp add: body_failure_message_def)
qed

text \<open>
  The theorem at the profile \<open>shanying_crm\<close>, of three success indicators: two hold
  (status 200, no \<open>Message\<close>) and the answer is success; one holds (status 500) and the
  answer is the unknown response; the body with a \<open>Message\<close> gives that message.
\<close>

theorem check_response_order_witness:
  "list_all well_typed (failure_indicators shanying_crm)
   \<and> list_all well_typed (success_indicators shanying_crm)
   \<and> check_response ex_json_loads 200 ''ok'' shanying_crm = Inr (True, PStr ''login success'')
   \<and> check_response ex_json_loads 500 ''ok'' shanying_crm
        = Inr (False, PStr ''unknown response'')
   \<and> check_response ex_json_loads 200 ex_body shanying_crm = Inr (False, PStr ''bad password'')"
proof -
  have f: "list_all well_typed (failure_indicators shanying_crm)"
    by (simp add: shanying_crm_def ex_indicator_def well_typed_def)
  have s: "list_all well_typed (success_indicators shanying_crm)"
    by (simp add: shanying_crm_def ex_indicator_def well_typed_def)
  have a: "check_response ex_json_loads 200 ''ok'' shanying_crm
             = Inr (True, PStr ''login success'')"
    using check_response_order [OF f s, of ex_json_loads 200 "''ok''"]
    by (simp add: shanying_crm_def ex_indicator_def scanned_as_failure_def indicator_holds_def)
  have b: "check_response ex_json_loads 500 ''ok'' shanying_crm
             = Inr (False, PStr ''unknown response'')"
    using check_response_order [OF f s, of ex_json_loads 500 "''ok''"]
    by (simp add: shanying_crm_def ex_indicator_def scanned_as_failure_def indicator_holds_def)
  have c: "check_response ex_json_loads 200 ex_body shanying_crm
             = Inr (False, PStr ''bad password'')"
    using check_response_order [OF f s, of ex_json_loads 200 ex_body]
    by (simp add: shanying_crm_def ex_indicator_def scanned_as_failure_def indicator_holds_def
        ex_body_def ex_json_loads_def body_failure_message_def)
  from f s a b c show ?thesis by simp
qed

text \<open>
  The claim as it is written fails: it has every failure indicator scanned, and an answer
  for every profile. At a profile of well-typed indicators whose failure indicator is a
  \<open>body_not_contains\<close> of \<open>token\<close>, at status 200 and the body \<open>denied\<close>, the failure
  indicator holds, so the evaluation of the specification is a failure; the code passes
  the indicator over and answers success. At a profile whose failure indicator is a
  \<open>body_contains\<close> of the number 401, the code raises \<open>TypeError\<close> and gives no answer.
\<close>

theorem check_response_order_counterexample:
  "list_all well_typed (failure_indicators token_profile)
   \<and> list_all well_typed (success_indicators token_profile)
   \<and> indicator_holds 200 ''denied'' (hd (failure_indicators token_profile))
   \<and> \<not> evaluate_spec 200 ''denied'' token_profile
   \<and> check_response ex_json_loads 200 ''denied'' token_profile
        = Inr (True, PStr ''login success'')
   \<and> check_response ex_json_loads 200 ''denied''
        (token_profile\<lparr>failure_indicators := [ex_indicator ''body_contains'' (IInt 401)]\<rparr>)
        = Inl TypeError"
  by (simp add: token_profile_def generic_profile_def ex_indicator_def well_typed_def
      indicator_holds_def evaluate_spec_def check_response_def)




section \<open>Profile registry: properties\<close>

text \<open>
  Where no pattern is a \<open>path_contains\<close> and every \<open>url_contains\<close> pattern has a value,
  \<open>ConfigManager.get_system_config\<close> is the resolution of the specification.
\<close>

lemma count_matches_filter:
  "count_matches ul n ps =
     n + length (filter (\<lambda>p. p_type p = Some ''url_contains''
                    \<and> str_in (lower (case p_value p of None \<Rightarrow> [] | Some v \<Rightarrow> v)) ul) ps)"
  by (induction ps arbitrary: n) (simp_all add: Let_def)

lemma half_rounded_up2: "((of_nat n :: rat) \<le> of_nat m * 2) = (Suc n div 2 \<le> m)"
proof -
  have "((of_nat n :: rat) \<le> of_nat m * 2) = ((of_nat n :: rat) \<le> of_nat (m * 2))"
    by simp
  also have "\<dots> = (n \<le> m * 2)" by (rule of_nat_le_iff)
  also have "\<dots> = (Suc n div 2 \<le> m)" by arith
  finally show ?thesis .
qed

lemma spec_pattern_matches_url:
  assumes "p_type p \<noteq> Some ''path_contains''"
    and "p_type p = Some ''url_contains'' \<longrightarrow> p_value p \<noteq> None"
  shows "spec_pattern_matches u p =
     (p_type p = Some ''url_contains''
      \<and> str_in (lower (case p_value p of None \<Rightarrow> [] | Some v \<Rightarrow> v)) (lower u))"
  using assms by (cases "p_value p") (auto simp: spec_pattern_matches_def)

lemma find_system_agrees:
  assumes "\<forall>entry \<in> set systems. \<forall>p \<in> set (patterns (snd entry)).
             p_type p \<noteq> Some ''path_contains''
             \<and> (p_type p = Some ''url_contains'' \<longrightarrow> p_value p \<noteq> None)"
  shows "find_system (lower u) systems = map_option snd (find (spec_selected u) systems)"
  using assms
proof (induction systems)
  case Nil
  show ?case by simp
next
  case (Cons entry rest)
  obtain sys_id sys_config where e: "entry = (sys_id, sys_config)" by (cases entry)
  have pats: "\<forall>p \<in> set (patterns sys_config).
             p_type p \<noteq> Some ''path_contains''
             \<and> (p_type p = Some ''url_contains'' \<longrightarrow> p_value p \<noteq> None)"
    using Cons.prems e by simp
  have same: "filter (spec_pattern_matches u) (patterns sys_config) =
     filter (\<lambda>p. p_type p = Some ''url_contains''
                    \<and> str_in (lower (case p_value p of None \<Rightarrow> [] | Some v \<Rightarrow> v)) (lower u))
       (patterns sys_config)"
    using pats by (intro filter_cong refl spec_pattern_matches_url) auto
  have IH: "find_system (lower u) rest = map_option snd (find (spec_selected u) rest)"
    using Cons by simp
  have sel: "spec_selected u (sys_id, sys_config) =
     (sys_id \<noteq> ''generic'' \<and> patterns sys_config \<noteq> []
      \<and> Suc (length (patterns sys_config)) div 2
          \<le> length (filter (\<lambda>p. p_type p = Some ''url_contains''
                    \<and> str_in (lower (case p_value p of None \<Rightarrow> [] | Some v \<Rightarrow> v)) (lower u))
                  (patterns sys_config)))"
    using same by (simp add: spec_selected_def)
  show ?case
    using IH by (simp add: e sel count_matches_filter half_rounded_up2 Let_def)
qed

lemma get_system_config_agrees:
  assumes "\<forall>entry \<in> set systems. \<forall>p \<in> set (patterns (snd entry)).
             p_type p \<noteq> Some ''path_contains''
             \<and> (p_type p = Some ''url_contains'' \<longrightarrow> p_value p \<noteq> None)"
    and "map_of systems ''generic'' = Some g"
  shows "resolve_spec systems u = Some (get_system_config systems u)"
  using find_system_agrees [OF assms(1), of u] assms(2)
  by (simp add: resolve_spec_def get_system_config_def split: option.splits)

text \<open>
  Claim C4. The claim: \<open>resolve\<close> counts the matching patterns of each profile, a
  \<open>path_contains\<close> pattern against the path of the URL, case-insensitively, and selects the
  first profile with at least half of its patterns matching. The code:
  \<^item> \<open>ConfigManager.get_system_config\<close>, on a registry that holds the fingerprint with a
    \<open>path_contains\<close> pattern, at a URL that matches two of its three patterns (one of them
    the path): the path pattern is not counted and the answer is \<open>generic\<close>, where the
    resolution of the specification selects the fingerprint;
  \<^item> \<open>SimpleConfigManager.get_system_config\<close>, at a URL written in capitals: the test is
    case-sensitive and the answer is \<open>generic\<close>, where the specification selects the
    profile; and at a URL that matches one of the three patterns: the answer is the
    profile, where the specification gives \<open>generic\<close>.
\<close>

theorem get_system_config_misses_path_patterns:
  "get_system_config ex_systems ''http://crmzzapp.example.test/api/user/login'' = generic_profile
   \<and> resolve_spec ex_systems ''http://crmzzapp.example.test/api/user/login''
        = Some crm_fingerprint
   \<and> simple_get_system_config ex_default_systems ''HTTP://CRMZZAPP.SHANYINGINTL.COM/''
        = Inr (Some generic_profile)
   \<and> resolve_spec ex_default_systems ''HTTP://CRMZZAPP.SHANYINGINTL.COM/'' = Some shanying_crm
   \<and> simple_get_system_config ex_systems ''http://shanyingintl.example.test/''
        = Inr (Some crm_fingerprint)
   \<and> resolve_spec ex_systems ''http://shanyingintl.example.test/'' = Some generic_profile"
proof (intro conjI)
  show "get_system_config ex_systems ''http://crmzzapp.example.test/api/user/login''
          = generic_profile"
    by code_simp
  show "resolve_spec ex_systems ''http://crmzzapp.example.test/api/user/login''
          = Some crm_fingerprint"
    by code_simp
  show "simple_get_system_config ex_default_systems ''HTTP://CRMZZAPP.SHANYINGINTL.COM/''
          = Inr (Some generic_profile)"
    by code_simp
  show "resolve_spec ex_default_systems ''HTTP://CRMZZAPP.SHANYINGINTL.COM/'' = Some shanying_crm"
    by code_simp
  show "simple_get_system_config ex_systems ''http://shanyingintl.example.test/''
          = Inr (Some crm_fingerprint)"
    by code_simp
  show "resolve_spec ex_systems ''http://shanyingintl.example.test/'' = Some generic_profile"
    by code_simp
qed

section \<open>Probe executor: properties\<close>

lemma verify_sync_url: "result_url (verify_sync env t) = url t"
  by (simp add: verify_sync_def unknown_error_result_def timeout_result_def
      connection_error_result_def evaluated_result_def
      split: sum.splits option.splits send_outcome.splits prod.splits)

lemma verify_async_url: "result_url (verify_async env t) = url t"
  by (simp add: verify_async_def unknown_error_result_def timeout_result_def
      connection_error_result_def evaluated_result_def
      split: sum.splits option.splits send_outcome.splits prod.splits)

lemma verify_sync_unexpected:
  "send env t = Unexpected e \<Longrightarrow>
   status (verify_sync env t) = UNKNOWN_ERROR \<and> \<not> success (verify_sync env t)"
  by (simp add: verify_sync_def unknown_error_result_def split: sum.splits option.splits)

lemma verify_async_unexpected:
  "send env t = Unexpected e \<Longrightarrow>
   status (verify_async env t) = UNKNOWN_ERROR \<and> \<not> success (verify_async env t)"
  by (simp add: verify_async_def unknown_error_result_def split: sum.splits option.splits)

lemma batch_sync_loop_quiet:
  "(\<forall>k t r. callbacks env k t r = None) \<Longrightarrow>
   batch_sync_loop env i acc ts = Inr (acc @ map (verify_sync env) ts)"
  by (induction ts arbitrary: i acc) (simp_all add: Let_def)

lemma handle_exceptions_enumerate:
  "n + length ts' = length ts \<Longrightarrow> ts' = drop n ts \<Longrightarrow>
   handle_exceptions env ts acc
     (enumerate n (map (\<lambda>(i, t). verify_with_limit env (schedule i) t) (enumerate n ts')))
   = Inr (acc @ map (\<lambda>(i, t). task_result env (schedule i) t) (enumerate n ts'))"
proof (induction ts' arbitrary: n acc)
  case Nil
  show ?case by simp
next
  case (Cons t ts')
  have n: "n < length ts" using Cons.prems(1) by simp
  have nth: "ts ! n = t" using Cons.prems(2) by (metis nth_via_drop)
  have rest1: "Suc n + length ts' = length ts" using Cons.prems(1) by simp
  have "drop (Suc n) ts = tl (drop n ts)" by (simp add: drop_Suc tl_drop)
  then have rest2: "ts' = drop (Suc n) ts" using Cons.prems(2) by (metis list.sel(3))
  note rest = rest1 rest2
  show ?case
    using Cons.IH [OF rest] n nth
    by (cases "callbacks env (schedule n) t (verify_async env t)")
       (simp_all add: verify_with_limit_def task_result_def Let_def)
qed

lemma verify_batch_async_eq:
  "verify_batch_async env schedule ts
     = Inr (map (\<lambda>(i, t). task_result env (schedule i) t) (enumerate 0 ts))"
  unfolding verify_batch_async_def Let_def
  using handle_exceptions_enumerate [of 0 ts ts env "[]" schedule] by simp

lemma task_result_url: "result_url (task_result env k t) = url t"
  by (simp add: task_result_def verify_async_url task_exception_result_def split: option.splits)

text \<open>
  What the two batch functions return, for every list of targets and every outcome of each
  probe. \<open>verify_batch_async\<close> returns one result for each target, in submission order,
  whatever the probes and the callbacks do: the result at a position is the result of the
  probe of the target at that position, or, when its task raised, an \<open>UNKNOWN_ERROR\<close>
  result for that target. \<open>verify_batch_sync\<close> does so when the callbacks do not raise. An
  exception raised inside a probe gives an \<open>UNKNOWN_ERROR\<close> result of that probe, with
  \<open>success\<close> false, in both modes.
\<close>

lemma verify_batch_results:
  "(\<exists>rs. verify_batch_async env schedule ts = Inr rs \<and> length rs = length ts
        \<and> (\<forall>i < length ts. result_url (rs ! i) = url (ts ! i)
              \<and> rs ! i = (case callbacks env (schedule i) (ts ! i) (verify_async env (ts ! i)) of
                            None \<Rightarrow> verify_async env (ts ! i)
                          | Some e \<Rightarrow> task_exception_result env (ts ! i) e)))
   \<and> ((\<forall>k t r. callbacks env k t r = None) \<longrightarrow>
        (\<exists>rs. verify_batch_sync env ts = Inr rs \<and> length rs = length ts
           \<and> (\<forall>i < length ts. result_url (rs ! i) = url (ts ! i)
                 \<and> rs ! i = verify_sync env (ts ! i))))
   \<and> (\<forall>t e. status (task_exception_result env t e) = UNKNOWN_ERROR
           \<and> \<not> success (task_exception_result env t e))
   \<and> (\<forall>t e. send env t = Unexpected e \<longrightarrow>
           status (verify_sync env t) = UNKNOWN_ERROR \<and> \<not> success (verify_sync env t)
           \<and> status (verify_async env t) = UNKNOWN_ERROR \<and> \<not> success (verify_async env t))"
proof (intro conjI allI impI)
  let ?rs = "map (\<lambda>(i, t). task_result env (schedule i) t) (enumerate 0 ts)"
  have nth: "?rs ! i = task_result env (schedule i) (ts ! i)" if "i < length ts" for i
    using that by (simp add: nth_enumerate_eq)
  have "verify_batch_async env schedule ts = Inr ?rs" by (rule verify_batch_async_eq)
  moreover have "length ?rs = length ts" by simp
  moreover have "\<forall>i < length ts. result_url (?rs ! i) = url (ts ! i)
              \<and> ?rs ! i = (case callbacks env (schedule i) (ts ! i) (verify_async env (ts ! i)) of
                            None \<Rightarrow> verify_async env (ts ! i)
                          | Some e \<Rightarrow> task_exception_result env (ts ! i) e)"
    using nth task_result_url by (simp add: task_result_def)
  ultimately show "\<exists>rs. verify_batch_async env schedule ts = Inr rs \<and> length rs = length ts
        \<and> (\<forall>i < length ts. result_url (rs ! i) = url (ts ! i)
              \<and> rs ! i = (case callbacks env (schedule i) (ts ! i) (verify_async env (ts ! i)) of
                            None \<Rightarrow> verify_async env (ts ! i)
                          | Some e \<Rightarrow> task_exception_result env (ts ! i) e))"
    by blast
next
  assume q: "\<forall>k t r. callbacks env k t r = None"
  have "verify_batch_sync env ts = Inr (map (verify_sync env) ts)"
    unfolding verify_batch_sync_def using batch_sync_loop_quiet [OF q, of 1 "[]" ts] by simp
  then show "\<exists>rs. verify_batch_sync env ts = Inr rs \<and> length rs = length ts
           \<and> (\<forall>i < length ts. result_url (rs ! i) = url (ts ! i)
                 \<and> rs ! i = verify_sync env (ts ! i))"
    by (simp add: verify_sync_url)
next
  fix t e
  show "status (task_exception_result env t e) = UNKNOWN_ERROR"
    by (simp add: task_exception_result_def)
  show "\<not> success (task_exception_result env t e)"
    by (simp add: task_exception_result_def)
next
  fix t e
  assume u: "send env t = Unexpected e"
  show "status (verify_sync env t) = UNKNOWN_ERROR" using verify_sync_unexpected [OF u] by simp
  show "\<not> success (verify_sync env t)" using verify_sync_unexpected [OF u] by simp
  show "status (verify_async env t) = UNKNOWN_ERROR" using verify_async_unexpected [OF u] by simp
  show "\<not> success (verify_async env t)" using verify_async_unexpected [OF u] by simp
qed


text \<open>
  Claim C7. The claim: for every list of N targets and every outcome, a raised exception
  included, \<open>runBatch\<close> returns N results, one for each target in submission order, an
  exception being turned into an \<open>UNKNOWN_ERROR\<close> result and never aborting the other
  probes. The code, on three targets with a callback that raises when the third probe
  completes: \<open>verify_batch_sync\<close> raises that exception and returns no list, the results of
  the first two probes being lost; \<open>verify_batch_async\<close> on the same input returns the
  three results, the third an \<open>UNKNOWN_ERROR\<close>.
\<close>

theorem verify_batch_sync_aborts_on_callback_exception:
  "verify_batch_sync ex_env ex_targets = Inl ''callback failed''
   \<and> map_sum id (map status) (verify_batch_async ex_env (\<lambda>i. i + 1) ex_targets)
        = Inr [SUCCESS, UNKNOWN_ERROR, UNKNOWN_ERROR]
   \<and> map_sum id (map result_url) (verify_batch_async ex_env (\<lambda>i. i + 1) ex_targets)
        = Inr (map url ex_targets)"
proof (intro conjI)
  show "verify_batch_sync ex_env ex_targets = Inl ''callback failed''"
    by code_simp
  show "map_sum id (map status) (verify_batch_async ex_env (\<lambda>i. i + 1) ex_targets)
          = Inr [SUCCESS, UNKNOWN_ERROR, UNKNOWN_ERROR]"
    by code_simp
  show "map_sum id (map result_url) (verify_batch_async ex_env (\<lambda>i. i + 1) ex_targets)
          = Inr (map url ex_targets)"
    by code_simp
qed

section \<open>Session persistence: properties\<close>

text \<open>
  A session with a target cannot be written, and no session that \<open>load_session\<close> returns
  has a target.
\<close>

lemma to_dict_with_targets: "targets s \<noteq> [] \<Longrightarrow> to_dict s = Inl AttributeError"
  by (cases "targets s") (simp_all add: to_dict_def TargetInfo_to_dict_def)

lemma target_from_dict_raises: "\<exists>e. target_from_dict t_data = Inl e"
  by (simp add: target_from_dict_def split: sum.splits)

lemma collect_targets_empty: "collect target_from_dict xs = Inr ts \<Longrightarrow> xs = [] \<and> ts = []"
proof (cases xs)
  case Nil
  assume "collect target_from_dict xs = Inr ts"
  with Nil show ?thesis by simp
next
  case (Cons x xs')
  assume a: "collect target_from_dict xs = Inr ts"
  obtain e where "target_from_dict x = Inl e" using target_from_dict_raises by blast
  with Cons a show ?thesis by simp
qed

lemma and_then_Inr: "and_then m f = Inr y \<Longrightarrow> \<exists>x. m = Inr x \<and> f x = Inr y"
  by (cases m) (simp_all add: and_then_def)

lemma typed_session_targets:
  "typed_session fresh_id now ts rs sid ca ua ci cf st = Some s \<Longrightarrow> targets s = ts"
  by (auto simp: typed_session_def Let_def bind_eq_Some_conv)

lemma from_dict_no_targets:
  assumes "from_dict fresh_id now data = Inr (Some s)"
  shows "targets s = []"
proof -
  from assms have "\<exists>xs. collect target_from_dict xs = Inr (targets s)"
    unfolding from_dict_def by (auto dest!: and_then_Inr typed_session_targets)
  then show ?thesis using collect_targets_empty by blast
qed

lemma load_session_no_targets:
  "load_session fresh_id now sid m = (Loaded s, m') \<Longrightarrow> targets s = []"
  by (auto simp: load_session_def from_dict_no_targets split: option.splits sum.splits)

lemma save_then_load_with_targets:
  "targets s \<noteq> [] \<Longrightarrow>
   fst (save_session (Some s) m) = False
   \<and> fst (load_session fresh_id now (session_id s) (snd (save_session (Some s) m))) = NotLoaded"
  by (simp add: save_session_def Let_def to_dict_with_targets load_session_def)

text \<open>
  Claim C1. The claim: \<open>save(session)\<close> followed by \<open>load(session.sessionId)\<close> succeeds and
  gives back equal targets, completed indices and statistics. The code, on a session of
  one target saved into an empty directory: \<open>save_session\<close> answers \<open>False\<close> and leaves the
  file empty, and \<open>load_session\<close> answers \<open>None\<close>. A document of the persisted format that
  holds a target cannot be loaded either: \<open>from_dict\<close> raises \<open>TypeError\<close> and \<open>load_session\<close>
  answers \<open>None\<close>.
\<close>

theorem save_then_load_loses_targets:
  "fst (save_session (Some (ex_session [ex_target ''http://a.test/'' 0])) ex_manager) = False
   \<and> files (snd (save_session (Some (ex_session [ex_target ''http://a.test/'' 0])) ex_manager))
        ''scan_1.json'' = Some None
   \<and> fst (load_session ''scan_2'' ''2024-01-02 00:00:00'' ''scan_1''
          (snd (save_session (Some (ex_session [ex_target ''http://a.test/'' 0])) ex_manager)))
        = NotLoaded
   \<and> from_dict ''scan_2'' ''2024-01-02 00:00:00'' ex_document = Inl TypeError
   \<and> fst (load_session ''scan_2'' ''2024-01-02 00:00:00'' ''scan_1''
          (ex_manager\<lparr>files := [''scan_1.json'' \<mapsto> Some ex_document]\<rparr>)) = NotLoaded"
proof (intro conjI)
  show "fst (save_session (Some (ex_session [ex_target ''http://a.test/'' 0])) ex_manager) = False"
    by (simp add: save_session_def to_dict_def TargetInfo_to_dict_def ex_session_def Let_def)
  show "files (snd (save_session (Some (ex_session [ex_target ''http://a.test/'' 0])) ex_manager))
        ''scan_1.json'' = Some None"
    by (simp add: save_session_def to_dict_def TargetInfo_to_dict_def ex_session_def Let_def
        session_file_def)
  show "fst (load_session ''scan_2'' ''2024-01-02 00:00:00'' ''scan_1''
          (snd (save_session (Some (ex_session [ex_target ''http://a.test/'' 0])) ex_manager)))
        = NotLoaded"
    by (simp add: save_session_def to_dict_def TargetInfo_to_dict_def ex_session_def Let_def
        session_file_def load_session_def)
  show d: "from_dict ''scan_2'' ''2024-01-02 00:00:00'' ex_document = Inl TypeError"
    by (simp add: from_dict_def ex_document_def and_then_def target_from_dict_def)
  show "fst (load_session ''scan_2'' ''2024-01-02 00:00:00'' ''scan_1''
          (ex_manager\<lparr>files := [''scan_1.json'' \<mapsto> Some ex_document]\<rparr>)) = NotLoaded"
    by (simp add: load_session_def session_file_def d)
qed

end
